theory Spec2Isabelle
  imports Main "HOL-Library.List_Lexorder" "HOL-Library.Char_ord" "HOL-Library.Sublist"
    "HOL-Library.AList"
begin

section \<open>Exceptions\<close>

text \<open>
  The Python exceptions that the modelled code can raise. \<open>IndexError\<close> is raised by
  \<^verbatim>\<open>new_document["bundles"][0]\<close> on an empty list, \<open>ValueError\<close> by unpacking an empty
  sequence, \<open>RequirementError\<close> by \<^verbatim>\<open>azul.reject\<close>; \<open>RequestError\<close> and
  \<open>ConnectionError\<close> are the two exceptions of the Elasticsearch client that
  \<^verbatim>\<open>BaseIndexer.index\<close> catches, carrying the client's error information.
\<close>

datatype error =
    IndexError
  | ValueError
  | AssertionError
  | AttributeError
  | RequirementError string
  | RequestError string
  | ConnectionError string
  | OtherError string

section \<open>Documents and \<^verbatim>\<open>BaseIndexer.merge\<close> (indexer/utils/indexer.py)\<close>

text \<open>
  A document is a Python mapping with a \<^verbatim>\<open>"bundles"\<close> key holding a list of bundle entries;
  each entry is a mapping with the keys \<^verbatim>\<open>"uuid"\<close> and \<^verbatim>\<open>"version"\<close>. Whatever else an
  entry carries is \<open>bundle_data\<close>, and every other top-level key of the document is
  \<open>other_keys\<close>. Bundle versions are strings, compared as Python compares strings
  (lexicographically by character).
\<close>

record 'c bundle_entry =
  uuid :: string
  version :: string
  bundle_data :: 'c

record ('c, 'd) document =
  bundles :: "'c bundle_entry list"
  other_keys :: 'd

text \<open>
  \<^verbatim>\<open>max(bundle, new_bundle, key=lambda x: x["version"])\<close>: Python's \<^verbatim>\<open>max\<close> keeps the
  first argument unless a later one has a strictly greater key.
\<close>

definition max_by_version :: "'c bundle_entry \<Rightarrow> 'c bundle_entry \<Rightarrow> 'c bundle_entry" where
  "max_by_version bundle new_bundle =
     (if version bundle < version new_bundle then new_bundle else bundle)"

text \<open>The loop of \<^verbatim>\<open>merge\<close> over \<^verbatim>\<open>stored_document["bundles"]\<close>, appending to \<^verbatim>\<open>updated_bundles\<close>.\<close>

fun updated_bundles :: "'c bundle_entry \<Rightarrow> 'c bundle_entry list \<Rightarrow> 'c bundle_entry list" where
  "updated_bundles new_bundle [] = []"
| "updated_bundles new_bundle (bundle # stored) =
     (if uuid bundle = uuid new_bundle
      then max_by_version bundle new_bundle # updated_bundles new_bundle stored
      else bundle # updated_bundles new_bundle stored)"

text \<open>
  \<^verbatim>\<open>merge(new_document, stored_document)\<close>. A falsy stored document (\<^verbatim>\<open>None\<close>, \<^verbatim>\<open>{}\<close>) is
  \<open>None\<close>. The result is \<^verbatim>\<open>new_document\<close> itself with its \<^verbatim>\<open>"bundles"\<close> key reassigned.
\<close>

definition merge ::
  "('c, 'd) document \<Rightarrow> ('c, 'd) document option \<Rightarrow> error + ('c, 'd) document" where
  "merge new_document stored_document =
     (case stored_document of
        None \<Rightarrow> Inr new_document
      | Some stored \<Rightarrow>
          (case bundles new_document of
             [] \<Rightarrow> Inl IndexError
           | new_bundle # _ \<Rightarrow>
               Inr (new_document\<lparr>bundles := updated_bundles new_bundle (bundles stored)\<rparr>)))"

text \<open>
  Successive deliveries to one document, without write failures: each incoming document
  is merged into what is stored and the result is stored in its place, as one
  read-merge-write cycle of \<^verbatim>\<open>index\<close> does. An exception of \<^verbatim>\<open>merge\<close> ends the run.
\<close>

fun deliver ::
  "('c, 'd) document list \<Rightarrow> ('c, 'd) document option \<Rightarrow> error + ('c, 'd) document option" where
  "deliver [] stored = Inr stored"
| "deliver (new_document # later) stored =
     (case merge new_document stored of
        Inl e \<Rightarrow> Inl e
      | Inr updated \<Rightarrow> deliver later (Some updated))"

section \<open>\<^verbatim>\<open>BaseIndexer.index\<close>: the write loop for one document\<close>

text \<open>
  What \<^verbatim>\<open>es_client.get\<close> returns when it is truthy: a mapping that \<^verbatim>\<open>index\<close> asks for its
  \<^verbatim>\<open>"_version"\<close> key (\<^verbatim>\<open>existing.get("_version", 0)\<close>) and hands to \<^verbatim>\<open>merge\<close> as the stored
  document. A falsy result (nothing found) is \<open>None\<close>.
\<close>

record ('c, 'd) es_response =
  response_version :: "int option"
  response_document :: "('c, 'd) document"

text \<open>The keyword arguments \<^verbatim>\<open>body\<close>, \<^verbatim>\<open>version\<close> and \<^verbatim>\<open>version_type\<close> of \<^verbatim>\<open>es_client.index\<close>.\<close>

record ('c, 'd) index_request =
  request_body :: "('c, 'd) document"
  request_version :: int
  request_version_type :: string

text \<open>
  The Elasticsearch client is not part of the repository: it is a parameter, a state
  machine with the two calls the loop makes for the document's index, type and id. Each
  call returns its result or the exception it raises, and the next state of the store.
  The third call of the loop that acts on the world outside it is \<^verbatim>\<open>sleep(retries)\<close>;
  \<open>client_sleep seconds\<close> is what that pause does to the state of the store.
\<close>

record ('s, 'c, 'd) es_client =
  client_get :: "'s \<Rightarrow> (error + ('c, 'd) es_response option) \<times> 's"
  client_index :: "('c, 'd) index_request \<Rightarrow> 's \<Rightarrow> (error + unit) \<times> 's"
  client_sleep :: "int \<Rightarrow> 's \<Rightarrow> 's"

text \<open>
  The variables of the loop: the store, \<^verbatim>\<open>retries\<close>, and \<^verbatim>\<open>es_document.document_content\<close>
  (which each cycle overwrites with the merged document). \<open>attempts\<close> counts the calls
  of \<^verbatim>\<open>es_client.index\<close> and \<open>sleeps\<close> lists the arguments of \<^verbatim>\<open>sleep\<close>, in order.
\<close>

record ('s, 'c, 'd) write_state =
  store :: 's
  retries :: int
  document_content :: "('c, 'd) document"
  attempts :: nat
  sleeps :: "int list"

text \<open>\<^verbatim>\<open>existing = {} if not existing else existing\<close>, then \<^verbatim>\<open>existing.get("_version", 0)\<close>.\<close>

definition existing_version :: "('c, 'd) es_response option \<Rightarrow> int" where
  "existing_version existing =
     (case existing of
        None \<Rightarrow> 0
      | Some response \<Rightarrow> (case response_version response of None \<Rightarrow> 0 | Some v \<Rightarrow> v))"

text \<open>
  The \<^verbatim>\<open>while True\<close> loop of \<^verbatim>\<open>index\<close> for one document. It ends by \<^verbatim>\<open>break\<close> (\<open>None\<close>) or
  with an exception (\<open>Some e\<close>): one raised by \<^verbatim>\<open>get\<close> or \<^verbatim>\<open>merge\<close>, which are outside the
  \<^verbatim>\<open>try\<close>, the \<open>ConnectionError\<close> re-raised when no retries are left, or any exception of
  \<^verbatim>\<open>es_client.index\<close> other than the two that are caught. The loop need not end: the
  value of a run that never ends is \<open>None\<close>.
\<close>

partial_function (option) write_document ::
  "('s, 'c, 'd) es_client \<Rightarrow> ('s, 'c, 'd) write_state \<Rightarrow>
   (error option \<times> ('s, 'c, 'd) write_state) option" where
  "write_document es st =
     (case client_get es (store st) of
        (Inl e, s1) \<Rightarrow> Some (Some e, st\<lparr>store := s1\<rparr>)
      | (Inr existing, s1) \<Rightarrow>
          (case merge (document_content st) (map_option response_document existing) of
             Inl e \<Rightarrow> Some (Some e, st\<lparr>store := s1\<rparr>)
           | Inr updated_document \<Rightarrow>
               (case client_index es
                       \<lparr>request_body = updated_document,
                        request_version = existing_version existing + 1,
                        request_version_type = ''external''\<rparr> s1 of
                  (Inr _, s2) \<Rightarrow>
                    Some (None, st\<lparr>store := s2, document_content := updated_document,
                                   attempts := Suc (attempts st)\<rparr>)
                | (Inl (RequestError info), s2) \<Rightarrow>
                    write_document es
                      (st\<lparr>store := s2, document_content := updated_document,
                          attempts := Suc (attempts st)\<rparr>)
                | (Inl (ConnectionError info), s2) \<Rightarrow>
                    (if retries st > 0
                     then write_document es
                            (st\<lparr>store := client_sleep es (retries st - 1) s2,
                                retries := retries st - 1,
                                document_content := updated_document,
                                attempts := Suc (attempts st),
                                sleeps := sleeps st @ [retries st - 1]\<rparr>)
                     else Some (Some (ConnectionError info),
                                st\<lparr>store := s2, document_content := updated_document,
                                    attempts := Suc (attempts st)\<rparr>))
                | (Inl e, s2) \<Rightarrow>
                    Some (Some e, st\<lparr>store := s2, document_content := updated_document,
                                     attempts := Suc (attempts st)\<rparr>))))"

declare write_document.simps [code]

text \<open>The state in which \<^verbatim>\<open>index\<close> enters the loop: \<^verbatim>\<open>retries = 3\<close>.\<close>

definition initial_write_state :: "'s \<Rightarrow> ('c, 'd) document \<Rightarrow> ('s, 'c, 'd) write_state" where
  "initial_write_state s new_content =
     \<lparr>store = s, retries = 3, document_content = new_content, attempts = 0, sleeps = []\<rparr>"

section \<open>A document store with external versioning\<close>

text \<open>
  Modelled from the spec: the document store is an external collaborator, described as a
  key-value API with get-by-id that tolerates absence and put-with-external-version: a
  write is rejected if the stored version has advanced past what was read, that is, unless
  the version it submits is greater than the stored one. The store below holds one
  document. \<open>pending\<close> scripts what happens at the next calls of \<^verbatim>\<open>index\<close>:
  \<open>ConnectionLost\<close> makes the call fail with a connection error before anything is
  written; \<open>Rival d\<close> lets a concurrent writer store \<open>d\<close> under the next version just before
  the call's own write is judged. \<open>received\<close> logs the requests.
\<close>

datatype ('c, 'd) event = ConnectionLost string | Rival "('c, 'd) document"

record ('c, 'd) document_store =
  store_document :: "('c, 'd) es_response option"
  pending :: "('c, 'd) event list"
  received :: "('c, 'd) index_request list"

definition versioned_put ::
  "('c, 'd) index_request \<Rightarrow> ('c, 'd) document_store \<Rightarrow> (error + unit) \<times> ('c, 'd) document_store" where
  "versioned_put request s =
     (if existing_version (store_document s) < request_version request
      then (Inr (),
            s\<lparr>store_document := Some \<lparr>response_version = Some (request_version request),
                               response_document = request_body request\<rparr>\<rparr>)
      else (Inl (RequestError ''version_conflict_engine_exception''), s))"

definition rival_put :: "('c, 'd) document \<Rightarrow> ('c, 'd) document_store \<Rightarrow> ('c, 'd) document_store" where
  "rival_put d s =
     s\<lparr>store_document := Some \<lparr>response_version = Some (existing_version (store_document s) + 1),
                        response_document = d\<rparr>\<rparr>"

definition store_get ::
  "('c, 'd) document_store \<Rightarrow> (error + ('c, 'd) es_response option) \<times> ('c, 'd) document_store" where
  "store_get s = (Inr (store_document s), s)"

definition store_index ::
  "('c, 'd) index_request \<Rightarrow> ('c, 'd) document_store \<Rightarrow> (error + unit) \<times> ('c, 'd) document_store" where
  "store_index request s =
     (let s1 = s\<lparr>received := received s @ [request]\<rparr>
      in case pending s of
           [] \<Rightarrow> versioned_put request s1
         | ConnectionLost info # later \<Rightarrow> (Inl (ConnectionError info), s1\<lparr>pending := later\<rparr>)
         | Rival d # later \<Rightarrow> versioned_put request (rival_put d (s1\<lparr>pending := later\<rparr>)))"

definition store_client :: "(('c, 'd) document_store, 'c, 'd) es_client" where
  "store_client =
     \<lparr>client_get = store_get, client_index = store_index, client_sleep = (\<lambda>seconds s. s)\<rparr>"

text \<open>
  Two clients that record every call made to them, in order. Nothing is stored in either.
  \<open>refusing_client\<close> answers every read and fails every \<^verbatim>\<open>index\<close> call with a connection
  error; \<open>unreachable_client\<close> fails every read as well.
\<close>

datatype ('c, 'd) call = GetCall | IndexCall "('c, 'd) index_request" | SleepCall int

definition refusing_client :: "(('c, 'd) call list, 'c, 'd) es_client" where
  "refusing_client =
     \<lparr>client_get = (\<lambda>calls. (Inr None, calls @ [GetCall])),
      client_index =
        (\<lambda>request calls. (Inl (ConnectionError ''connection refused''),
                            calls @ [IndexCall request])),
      client_sleep = (\<lambda>seconds calls. calls @ [SleepCall seconds])\<rparr>"

definition unreachable_client :: "(('c, 'd) call list, 'c, 'd) es_client" where
  "unreachable_client =
     \<lparr>client_get = (\<lambda>calls. (Inl (ConnectionError ''connection refused''), calls @ [GetCall])),
      client_index =
        (\<lambda>request calls. (Inl (ConnectionError ''connection refused''),
                            calls @ [IndexCall request])),
      client_sleep = (\<lambda>seconds calls. calls @ [SleepCall seconds])\<rparr>"

section \<open>The entity graph of a bundle\<close>

text \<open>
  The metadata API (\<^verbatim>\<open>humancellatlas.data.metadata.api\<close>) presents a bundle as a graph of
  typed entities; \<^verbatim>\<open>transformers.py\<close> reads it through the attributes modelled here. An
  entity carries its document id, its type, its remaining attributes (\<open>attrs\<close>) and its
  parents, \<^verbatim>\<open>entity.parents.values()\<close> in order. The graph is acyclic; an entity that is
  reached along two paths occurs under both parents.
\<close>

datatype protocol_type =
    SequencingProtocol
  | LibraryPreparationProtocol
  | AnalysisProtocol
  | ImagingProtocol
  | OtherProtocol

record 'a protocol =
  protocol_document_id :: string
  protocol_type :: protocol_type
  protocol_attrs :: 'a

record manifest_entry =
  content_type :: string
  indexed :: bool
  name :: string
  sha256 :: string
  file_size :: int
  file_uuid :: string
  file_version :: string

text \<open>\<open>sequence_file\<close> is \<^verbatim>\<open>(read_index, lane_index)\<close> when the file is an \<^verbatim>\<open>api.SequenceFile\<close>.\<close>

record file_attributes =
  manifest_entry :: manifest_entry
  file_format :: string
  sequence_file :: "(string \<times> int) option"

datatype 'a entity_type =
    SpecimenFromOrganism
  | CellSuspension
  | CellLine
  | DonorOrganism
  | Organoid
  | Process "'a protocol list"
  | File file_attributes
  | OtherEntity

datatype 'a entity =
  Entity (document_id: string) (entity_type: "'a entity_type") (attrs: 'a) (parents: "'a entity list")

record 'a project =
  project_document_id :: string
  project_attrs :: 'a

text \<open>
  \<^verbatim>\<open>api.Bundle\<close>: \<open>bundle_projects\<close> is \<^verbatim>\<open>bundle.projects.values()\<close>, \<open>bundle_files\<close> is
  \<^verbatim>\<open>bundle.files.values()\<close>, \<open>bundle_biomaterials\<close> is \<^verbatim>\<open>bundle.biomaterials.values()\<close>,
  \<open>bundle_specimens\<close> is \<^verbatim>\<open>bundle.specimens\<close>, and \<open>metadata_file_names\<close> are the keys of
  the \<^verbatim>\<open>metadata_files\<close> the bundle was built from.
\<close>

record 'a api_bundle =
  bundle_uuid :: string
  bundle_version :: string
  bundle_projects :: "'a project list"
  bundle_files :: "'a entity list"
  bundle_biomaterials :: "'a entity list"
  bundle_specimens :: "'a entity list"
  metadata_file_names :: "string list"

section \<open>\<^verbatim>\<open>Transformer._find_ancestor_samples\<close> (azul/project/hca/transformers.py)\<close>

text \<open>\<^verbatim>\<open>sample_types = api.CellLine, api.Organoid, api.SpecimenFromOrganism\<close>.\<close>

fun is_sample_type :: "'a entity_type \<Rightarrow> bool" where
  "is_sample_type CellLine = True"
| "is_sample_type Organoid = True"
| "is_sample_type SpecimenFromOrganism = True"
| "is_sample_type _ = False"

text \<open>
  The \<^verbatim>\<open>samples\<close> argument is a Python dict keyed by \<^verbatim>\<open>str(entity.document_id)\<close>: an
  association list in insertion order, where assigning to a key that is present replaces
  its value in place (\<open>AList.update\<close>).
\<close>

fun find_ancestor_samples ::
  "'a entity \<Rightarrow> (string \<times> 'a entity) list \<Rightarrow> (string \<times> 'a entity) list" where
  "find_ancestor_samples (Entity did t a ps) samples =
     (if is_sample_type t then AList.update did (Entity did t a ps) samples
      else fold find_ancestor_samples ps samples)"

text \<open>
  The docstring's notion of the sample ancestors of an entity, as a set: the entity itself
  when it is of a sample type, otherwise the sample ancestors of its parents.
\<close>

fun sample_ancestors :: "'a entity \<Rightarrow> 'a entity set" where
  "sample_ancestors (Entity did t a ps) =
     (if is_sample_type t then {Entity did t a ps}
      else (\<Union>parent \<in> set ps. sample_ancestors parent))"

section \<open>\<^verbatim>\<open>Transformer._get_project\<close>\<close>

text \<open>
  Modelled from the spec: \<^verbatim>\<open>azul.reject\<close> is imported by \<^verbatim>\<open>transformers.py\<close> but its
  definition is not among the source files. The spec calls more than one project per
  bundle a fatal precondition violation; \<^verbatim>\<open>reject(condition, message)\<close> raises a
  \<open>RequirementError\<close> carrying the message when the condition is truthy.
\<close>

definition reject :: "bool \<Rightarrow> string \<Rightarrow> error + unit" where
  "reject condition message = (if condition then Inl (RequirementError message) else Inr ())"

text \<open>
  \<^verbatim>\<open>project, *additional_projects = bundle.projects.values()\<close> raises \<open>ValueError\<close> when
  there is no project to unpack.
\<close>

definition get_project :: "'a api_bundle \<Rightarrow> error + 'a project" where
  "get_project bundle =
     (case bundle_projects bundle of
        [] \<Rightarrow> Inl ValueError
      | project # additional_projects \<Rightarrow>
          (case reject (additional_projects \<noteq> [])
                  ''Azul can currently only handle a single project per bundle'' of
             Inl e \<Rightarrow> Inl e
           | Inr _ \<Rightarrow> Inr project))"

section \<open>\<^verbatim>\<open>TransformerVisitor\<close>\<close>

text \<open>
  The test that both \<^verbatim>\<open>TransformerVisitor.visit\<close> and \<^verbatim>\<open>FileTransformer.transform\<close> apply
  to a file's manifest name:
  \<^verbatim>\<open>'.zarr!' in name and not name.endswith('.zattrs')\<close>.
\<close>

definition is_zarr_chunk :: "string \<Rightarrow> bool" where
  "is_zarr_chunk file_name \<longleftrightarrow> sublist ''.zarr!'' file_name \<and> \<not> suffix ''.zattrs'' file_name"

text \<open>An entity that is a file whose manifest name does not meet that test.\<close>

definition indexable_file :: "'a entity \<Rightarrow> bool" where
  "indexable_file entity =
     (case entity_type entity of
        File f \<Rightarrow> \<not> is_zarr_chunk (name (manifest_entry f))
      | _ \<Rightarrow> False)"

text \<open>The visitor's buckets are dicts keyed by document id.\<close>

record 'a visitor =
  specimens :: "(string \<times> 'a entity) list"
  cell_suspensions :: "(string \<times> 'a entity) list"
  cell_lines :: "(string \<times> 'a entity) list"
  donors :: "(string \<times> 'a entity) list"
  organoids :: "(string \<times> 'a entity) list"
  protocols :: "(string \<times> 'a protocol) list"
  files :: "(string \<times> 'a entity) list"

definition TransformerVisitor :: "'a visitor" where
  "TransformerVisitor =
     \<lparr>specimens = [], cell_suspensions = [], cell_lines = [], donors = [], organoids = [],
      protocols = [], files = []\<rparr>"

fun is_indexed_protocol :: "protocol_type \<Rightarrow> bool" where
  "is_indexed_protocol SequencingProtocol = True"
| "is_indexed_protocol LibraryPreparationProtocol = True"
| "is_indexed_protocol AnalysisProtocol = True"
| "is_indexed_protocol ImagingProtocol = True"
| "is_indexed_protocol OtherProtocol = False"

definition visit_protocol :: "'a protocol \<Rightarrow> 'a visitor \<Rightarrow> 'a visitor" where
  "visit_protocol protocol v =
     (if is_indexed_protocol (protocol_type protocol)
      then v\<lparr>protocols := AList.update (protocol_document_id protocol) protocol (protocols v)\<rparr>
      else v)"

definition visit :: "'a entity \<Rightarrow> 'a visitor \<Rightarrow> 'a visitor" where
  "visit entity v =
     (case entity_type entity of
        SpecimenFromOrganism \<Rightarrow> v\<lparr>specimens := AList.update (document_id entity) entity (specimens v)\<rparr>
      | CellSuspension \<Rightarrow>
          v\<lparr>cell_suspensions := AList.update (document_id entity) entity (cell_suspensions v)\<rparr>
      | CellLine \<Rightarrow> v\<lparr>cell_lines := AList.update (document_id entity) entity (cell_lines v)\<rparr>
      | DonorOrganism \<Rightarrow> v\<lparr>donors := AList.update (document_id entity) entity (donors v)\<rparr>
      | Organoid \<Rightarrow> v\<lparr>organoids := AList.update (document_id entity) entity (organoids v)\<rparr>
      | Process process_protocols \<Rightarrow> fold visit_protocol process_protocols v
      | File f \<Rightarrow>
          (if is_zarr_chunk (name (manifest_entry f)) then v
           else v\<lparr>files := AList.update (document_id entity) entity (files v)\<rparr>)
      | OtherEntity \<Rightarrow> v)"

section \<open>Serialisation and contributions\<close>

text \<open>The dict that \<^verbatim>\<open>Transformer._file\<close> returns; the two index keys exist for sequence files only.\<close>

record file_json =
  json_content_type :: string
  json_indexed :: bool
  json_name :: string
  json_sha256 :: string
  json_size :: int
  json_uuid :: string
  json_version :: string
  json_document_id :: string
  json_file_format :: string
  json_type :: string
  json_read_index :: "string option"
  json_lane_index :: "int option"

text \<open>
  \<^verbatim>\<open>_file(file)\<close>. Reading \<^verbatim>\<open>file.manifest_entry\<close> of an entity that is not a file raises
  \<open>AttributeError\<close>.
\<close>

definition file_json_of :: "'a entity \<Rightarrow> error + file_json" where
  "file_json_of file =
     (case entity_type file of
        File f \<Rightarrow>
          Inr \<lparr>json_content_type = content_type (manifest_entry f),
               json_indexed = indexed (manifest_entry f),
               json_name = name (manifest_entry f),
               json_sha256 = sha256 (manifest_entry f),
               json_size = file_size (manifest_entry f),
               json_uuid = file_uuid (manifest_entry f),
               json_version = file_version (manifest_entry f),
               json_document_id = document_id file,
               json_file_format = file_format f,
               json_type = ''file'',
               json_read_index = map_option fst (sequence_file f),
               json_lane_index = map_option snd (sequence_file f)\<rparr>
      | _ \<Rightarrow> Inl AttributeError)"

text \<open>
  What the transformers use without this model looking inside. The serialisers of the
  other entity types (\<^verbatim>\<open>_sample\<close>, \<^verbatim>\<open>_specimen\<close>, \<^verbatim>\<open>_cell_suspension\<close>, \<^verbatim>\<open>_cell_line\<close>,
  \<^verbatim>\<open>_donor\<close>, \<^verbatim>\<open>_organoid\<close>, \<^verbatim>\<open>_protocol\<close>, \<^verbatim>\<open>_project\<close>) read attributes of the API objects
  and may raise; each is any function from the object to a JSON value or an exception.
  \<open>accept_visits entity\<close> and \<open>ancestors_visits entity\<close> are the entities on which the API's
  \<^verbatim>\<open>entity.accept(visitor)\<close> and \<^verbatim>\<open>entity.ancestors(visitor)\<close> call \<^verbatim>\<open>visitor.visit\<close>, in
  order. \<open>metadata_dump\<close> is the dump of \<^verbatim>\<open>MetadataGenerator\<close> for the bundle.
\<close>

record ('a, 'j) collaborators =
  sample_json :: "'a entity \<Rightarrow> error + 'j"
  specimen_json :: "'a entity \<Rightarrow> error + 'j"
  cell_suspension_json :: "'a entity \<Rightarrow> error + 'j"
  cell_line_json :: "'a entity \<Rightarrow> error + 'j"
  donor_json :: "'a entity \<Rightarrow> error + 'j"
  organoid_json :: "'a entity \<Rightarrow> error + 'j"
  protocol_json :: "'a protocol \<Rightarrow> error + 'j"
  project_json :: "'a project \<Rightarrow> error + 'j"
  accept_visits :: "'a entity \<Rightarrow> 'a entity list"
  ancestors_visits :: "'a entity \<Rightarrow> 'a entity list"
  metadata_dump :: "'a api_bundle \<Rightarrow> 'j list"

text \<open>\<^verbatim>\<open>entity.accept(visitor); entity.ancestors(visitor)\<close> on a visitor.\<close>

definition accept_and_ancestors ::
  "('a, 'j) collaborators \<Rightarrow> 'a entity \<Rightarrow> 'a visitor \<Rightarrow> 'a visitor" where
  "accept_and_ancestors api entity v =
     fold visit (ancestors_visits api entity) (fold visit (accept_visits api entity) v)"

record 'j contents =
  contents_samples :: "'j list"
  contents_specimens :: "'j list"
  contents_cell_suspensions :: "'j list"
  contents_cell_lines :: "'j list"
  contents_donors :: "'j list"
  contents_organoids :: "'j list"
  contents_files :: "file_json list"
  contents_protocols :: "'j list"
  contents_projects :: "'j list"
  contents_metadata :: "'j list option"

record 'j contribution =
  entity_reference :: "string \<times> string"
  contribution_version :: "int option"
  contents :: "'j contents"
  contribution_bundle_uuid :: string
  contribution_bundle_version :: string
  bundle_deleted :: bool

definition bind_result :: "error + 'x \<Rightarrow> ('x \<Rightarrow> error + 'y) \<Rightarrow> error + 'y" where
  "bind_result r f = (case r of Inl e \<Rightarrow> Inl e | Inr x \<Rightarrow> f x)"

text \<open>A list comprehension \<^verbatim>\<open>[f(x) for x in xs]\<close> whose \<^verbatim>\<open>f\<close> may raise.\<close>

fun traverse :: "('x \<Rightarrow> error + 'y) \<Rightarrow> 'x list \<Rightarrow> error + 'y list" where
  "traverse f [] = Inr []"
| "traverse f (x # xs) =
     bind_result (f x) (\<lambda>y. bind_result (traverse f xs) (\<lambda>ys. Inr (y # ys)))"

text \<open>
  The \<^verbatim>\<open>dict(samples=[...], specimens=[...], ...)\<close> that every transformer builds, its
  keyword arguments evaluated in order; the transformers differ in the lists they pass.
\<close>

definition make_contents ::
  "('a, 'j) collaborators \<Rightarrow> 'a entity list \<Rightarrow> 'a entity list \<Rightarrow> 'a entity list \<Rightarrow>
   'a entity list \<Rightarrow> 'a entity list \<Rightarrow> 'a entity list \<Rightarrow> 'a entity list \<Rightarrow> 'a protocol list \<Rightarrow>
   'a project \<Rightarrow> error + 'j contents" where
  "make_contents api sample_list specimen_list cell_suspension_list cell_line_list donor_list organoid_list file_list
      protocol_list project =
     bind_result (traverse (sample_json api) sample_list) (\<lambda>js_samples.
     bind_result (traverse (specimen_json api) specimen_list) (\<lambda>js_specimens.
     bind_result (traverse (cell_suspension_json api) cell_suspension_list) (\<lambda>js_cell_suspensions.
     bind_result (traverse (cell_line_json api) cell_line_list) (\<lambda>js_cell_lines.
     bind_result (traverse (donor_json api) donor_list) (\<lambda>js_donors.
     bind_result (traverse (organoid_json api) organoid_list) (\<lambda>js_organoids.
     bind_result (traverse file_json_of file_list) (\<lambda>js_files.
     bind_result (traverse (protocol_json api) protocol_list) (\<lambda>js_protocols.
     bind_result (project_json api project) (\<lambda>js_project.
       Inr \<lparr>contents_samples = js_samples,
            contents_specimens = js_specimens,
            contents_cell_suspensions = js_cell_suspensions,
            contents_cell_lines = js_cell_lines,
            contents_donors = js_donors,
            contents_organoids = js_organoids,
            contents_files = js_files,
            contents_protocols = js_protocols,
            contents_projects = [js_project],
            contents_metadata = None\<rparr>)))))))))"

text \<open>\<^verbatim>\<open>Transformer._contribution\<close>; the first argument is \<^verbatim>\<open>self.entity_type()\<close>.\<close>

definition make_contribution ::
  "string \<Rightarrow> 'a api_bundle \<Rightarrow> 'j contents \<Rightarrow> string \<Rightarrow> bool \<Rightarrow> 'j contribution" where
  "make_contribution transformer_entity_type bundle built_contents entity_id deleted =
     \<lparr>entity_reference = (transformer_entity_type, entity_id),
      contribution_version = None,
      contents = built_contents,
      contribution_bundle_uuid = bundle_uuid bundle,
      contribution_bundle_version = bundle_version bundle,
      bundle_deleted = deleted\<rparr>"

section \<open>The transformers\<close>

text \<open>
  \<^verbatim>\<open>transform\<close> is a generator: it yields contributions one by one and may raise after
  some were yielded. Its value is the list of contributions yielded and the exception
  that ended it, if any. The loop body gives \<open>None\<close> for \<^verbatim>\<open>continue\<close>, an exception, or
  the contribution to yield.
\<close>

fun generate :: "('x \<Rightarrow> (error + 'c) option) \<Rightarrow> 'x list \<Rightarrow> 'c list \<times> error option" where
  "generate body [] = ([], None)"
| "generate body (x # xs) =
     (case body x of
        None \<Rightarrow> generate body xs
      | Some (Inl e) \<Rightarrow> ([], Some e)
      | Some (Inr c) \<Rightarrow> (c # fst (generate body xs), snd (generate body xs)))"

definition FileTransformer_body ::
  "('a, 'j) collaborators \<Rightarrow> bool \<Rightarrow> 'a api_bundle \<Rightarrow> 'a project \<Rightarrow> 'a entity \<Rightarrow>
   (error + 'j contribution) option" where
  "FileTransformer_body api deleted bundle project file =
     (case entity_type file of
        File f \<Rightarrow>
          (if is_zarr_chunk (name (manifest_entry f)) then None
           else
             (let visitor = accept_and_ancestors api file TransformerVisitor;
                  samples = find_ancestor_samples file []
              in Some (bind_result
                   (make_contents api (map snd samples) (map snd (specimens visitor))
                      (map snd (cell_suspensions visitor)) (map snd (cell_lines visitor))
                      (map snd (donors visitor)) (map snd (organoids visitor)) [file]
                      (map snd (protocols visitor)) project)
                   (\<lambda>built_contents. Inr (make_contribution ''files'' bundle built_contents
                                       (document_id file) deleted)))))
      | _ \<Rightarrow> Some (Inl AttributeError))"

definition FileTransformer_transform ::
  "('a, 'j) collaborators \<Rightarrow> bool \<Rightarrow> 'a api_bundle \<Rightarrow> 'j contribution list \<times> error option" where
  "FileTransformer_transform api deleted bundle =
     (case get_project bundle of
        Inl e \<Rightarrow> ([], Some e)
      | Inr project \<Rightarrow>
          generate (FileTransformer_body api deleted bundle project) (bundle_files bundle))"

definition CellSuspensionTransformer_body ::
  "('a, 'j) collaborators \<Rightarrow> bool \<Rightarrow> 'a api_bundle \<Rightarrow> 'a project \<Rightarrow> 'a entity \<Rightarrow>
   (error + 'j contribution) option" where
  "CellSuspensionTransformer_body api deleted bundle project cell_suspension =
     (case entity_type cell_suspension of
        CellSuspension \<Rightarrow>
          (let samples = find_ancestor_samples cell_suspension [];
               visitor = accept_and_ancestors api cell_suspension TransformerVisitor
           in Some (bind_result
                (make_contents api (map snd samples) (map snd (specimens visitor))
                   [cell_suspension] (map snd (cell_lines visitor))
                   (map snd (donors visitor)) (map snd (organoids visitor))
                   (map snd (files visitor)) (map snd (protocols visitor)) project)
                (\<lambda>built_contents. Inr (make_contribution ''cell_suspensions'' bundle built_contents
                                    (document_id cell_suspension) deleted))))
      | _ \<Rightarrow> None)"

definition CellSuspensionTransformer_transform ::
  "('a, 'j) collaborators \<Rightarrow> bool \<Rightarrow> 'a api_bundle \<Rightarrow> 'j contribution list \<times> error option" where
  "CellSuspensionTransformer_transform api deleted bundle =
     (case get_project bundle of
        Inl e \<Rightarrow> ([], Some e)
      | Inr project \<Rightarrow>
          generate (CellSuspensionTransformer_body api deleted bundle project)
            (bundle_biomaterials bundle))"

definition SampleTransformer_body ::
  "('a, 'j) collaborators \<Rightarrow> bool \<Rightarrow> 'a api_bundle \<Rightarrow> 'a project \<Rightarrow> 'a entity \<Rightarrow>
   (error + 'j contribution) option" where
  "SampleTransformer_body api deleted bundle project sample =
     (let visitor = accept_and_ancestors api sample TransformerVisitor
      in Some (bind_result
           (make_contents api [sample] (map snd (specimens visitor))
              (map snd (cell_suspensions visitor)) (map snd (cell_lines visitor))
              (map snd (donors visitor)) (map snd (organoids visitor))
              (map snd (files visitor)) (map snd (protocols visitor)) project)
           (\<lambda>built_contents. Inr (make_contribution ''samples'' bundle built_contents
                               (document_id sample) deleted))))"

definition SampleTransformer_transform ::
  "('a, 'j) collaborators \<Rightarrow> bool \<Rightarrow> 'a api_bundle \<Rightarrow> 'j contribution list \<times> error option" where
  "SampleTransformer_transform api deleted bundle =
     (case get_project bundle of
        Inl e \<Rightarrow> ([], Some e)
      | Inr project \<Rightarrow>
          (let samples = fold find_ancestor_samples (bundle_files bundle) []
           in generate (SampleTransformer_body api deleted bundle project) (map snd samples)))"

text \<open>
  \<^verbatim>\<open>BundleProjectTransformer.transform\<close>: one visitor and one \<^verbatim>\<open>samples\<close> dict for the
  whole bundle, then \<^verbatim>\<open>_get_project\<close>, then a single contribution. The first two
  arguments are the subclass's \<^verbatim>\<open>entity_type()\<close> and \<^verbatim>\<open>_get_entity_id\<close>.
  \<open>BundleProjectTransformer_yield\<close> is the part that follows \<^verbatim>\<open>_get_project\<close>.
\<close>

definition BundleProjectTransformer_yield ::
  "string \<Rightarrow> ('a api_bundle \<Rightarrow> 'a project \<Rightarrow> string) \<Rightarrow> ('a, 'j) collaborators \<Rightarrow> bool \<Rightarrow>
   'a api_bundle \<Rightarrow> 'a visitor \<Rightarrow> (string \<times> 'a entity) list \<Rightarrow> 'a project \<Rightarrow>
   'j contribution list \<times> error option" where
  "BundleProjectTransformer_yield transformer_entity_type get_entity_id api deleted bundle
      visitor samples project =
     (case make_contents api (map snd samples) (map snd (specimens visitor))
             (map snd (cell_suspensions visitor)) (map snd (cell_lines visitor))
             (map snd (donors visitor)) (map snd (organoids visitor))
             (map snd (files visitor)) (map snd (protocols visitor)) project of
        Inl e \<Rightarrow> ([], Some e)
      | Inr built_contents \<Rightarrow>
          ([make_contribution transformer_entity_type bundle built_contents
              (get_entity_id bundle project) deleted], None))"

definition BundleProjectTransformer_transform ::
  "string \<Rightarrow> ('a api_bundle \<Rightarrow> 'a project \<Rightarrow> string) \<Rightarrow> ('a, 'j) collaborators \<Rightarrow> bool \<Rightarrow>
   'a api_bundle \<Rightarrow> 'j contribution list \<times> error option" where
  "BundleProjectTransformer_transform transformer_entity_type get_entity_id api deleted bundle =
     (let visitor = fold (accept_and_ancestors api) (bundle_specimens bundle) TransformerVisitor;
          visitor = fold (accept_and_ancestors api) (bundle_files bundle) visitor;
          samples = fold find_ancestor_samples (bundle_files bundle) []
      in case get_project bundle of
           Inl e \<Rightarrow> ([], Some e)
         | Inr project \<Rightarrow>
             BundleProjectTransformer_yield transformer_entity_type get_entity_id api deleted
               bundle visitor samples project)"

definition ProjectTransformer_transform ::
  "('a, 'j) collaborators \<Rightarrow> bool \<Rightarrow> 'a api_bundle \<Rightarrow> 'j contribution list \<times> error option" where
  "ProjectTransformer_transform =
     BundleProjectTransformer_transform ''projects'' (\<lambda>bundle project. project_document_id project)"

text \<open>
  \<^verbatim>\<open>BundleTransformer.transform\<close> sets the \<^verbatim>\<open>'metadata'\<close> key of every contribution of its
  superclass: the empty list when the bundle has a \<^verbatim>\<open>project.json\<close>, the generator's
  dump otherwise.
\<close>

definition with_metadata ::
  "('a, 'j) collaborators \<Rightarrow> 'a api_bundle \<Rightarrow> 'j contribution \<Rightarrow> 'j contribution" where
  "with_metadata api bundle contrib =
     contrib\<lparr>contents := (contents contrib)
       \<lparr>contents_metadata :=
          Some (if ''project.json'' \<in> set (metadata_file_names bundle) then []
                else metadata_dump api bundle)\<rparr>\<rparr>"

definition BundleTransformer_transform ::
  "('a, 'j) collaborators \<Rightarrow> bool \<Rightarrow> 'a api_bundle \<Rightarrow> 'j contribution list \<times> error option" where
  "BundleTransformer_transform api deleted bundle =
     (case BundleProjectTransformer_transform ''bundles'' (\<lambda>bundle project. bundle_uuid bundle)
             api deleted bundle of
        (contribs, err) \<Rightarrow> (map (with_metadata api bundle) contribs, err))"

section \<open>Example graph and collaborators\<close>

text \<open>
  A traversal for concrete runs: \<open>accept\<close> visits the entity itself, \<open>ancestors\<close> visits
  every ancestor, the ancestors of a parent before the parent.
\<close>

fun ancestors_of :: "'a entity \<Rightarrow> 'a entity list" where
  "ancestors_of (Entity did t a ps) = concat (map (\<lambda>parent. ancestors_of parent @ [parent]) ps)"

definition example_api :: "(unit, string) collaborators" where
  "example_api =
     \<lparr>sample_json = (\<lambda>e. Inr (document_id e)),
      specimen_json = (\<lambda>e. Inr (document_id e)),
      cell_suspension_json = (\<lambda>e. Inr (document_id e)),
      cell_line_json = (\<lambda>e. Inr (document_id e)),
      donor_json = (\<lambda>e. Inr (document_id e)),
      organoid_json = (\<lambda>e. Inr (document_id e)),
      protocol_json = (\<lambda>p. Inr (protocol_document_id p)),
      project_json = (\<lambda>p. Inr (project_document_id p)),
      accept_visits = (\<lambda>e. [e]),
      ancestors_visits = ancestors_of,
      metadata_dump = (\<lambda>b. [])\<rparr>"

text \<open>
  A diamond: a cell suspension derived by two processes from the same specimen, which
  comes from a donor; a sequence file and an internal zarr chunk derived from the cell
  suspension.
\<close>

definition donor1 :: "unit entity" where
  "donor1 = Entity ''donor-1'' DonorOrganism () []"

definition specimen1 :: "unit entity" where
  "specimen1 = Entity ''specimen-1'' SpecimenFromOrganism () [donor1]"

definition suspension1 :: "unit entity" where
  "suspension1 =
     Entity ''suspension-1'' CellSuspension ()
       [Entity ''process-1'' (Process []) () [specimen1],
        Entity ''process-2'' (Process []) () [specimen1]]"

definition file_entity :: "string \<Rightarrow> string \<Rightarrow> unit entity" where
  "file_entity did file_name =
     Entity did
       (File \<lparr>manifest_entry =
                \<lparr>content_type = ''application/octet-stream'', indexed = False, name = file_name,
                 sha256 = ''0'', file_size = 100, file_uuid = did,
                 file_version = ''2020-01-01T00:00:00.000Z''\<rparr>,
              file_format = ''bin'', sequence_file = None\<rparr>)
       () [Entity ''process-3'' (Process []) () [suspension1]]"

definition example_bundle :: "unit project list \<Rightarrow> unit api_bundle" where
  "example_bundle ps =
     \<lparr>bundle_uuid = ''B1'', bundle_version = ''2020-01-01T00:00:00.000Z'',
      bundle_projects = ps,
      bundle_files = [file_entity ''file-1'' ''reads.fastq.gz'',
                      file_entity ''file-2'' ''matrix.zarr!expression/0.0''],
      bundle_biomaterials = [donor1, specimen1, suspension1],
      bundle_specimens = [specimen1],
      metadata_file_names = []\<rparr>"

section \<open>Properties of \<^verbatim>\<open>merge\<close>\<close>

lemma length_updated_bundles: "length (updated_bundles nb bs) = length bs"
  by (induction bs) auto

lemma nth_updated_bundles:
  "i < length bs \<Longrightarrow>
   updated_bundles nb bs ! i =
     (if uuid (bs ! i) = uuid nb then max_by_version (bs ! i) nb else bs ! i)"
proof (induction bs arbitrary: i)
  case Nil
  then show ?case by simp
next
  case (Cons b bs)
  then show ?case by (cases i) auto
qed

lemma updated_bundles_unchanged:
  "\<forall>b \<in> set bs. uuid b = uuid nb \<longrightarrow> version nb \<le> version b \<Longrightarrow> updated_bundles nb bs = bs"
  by (induction bs) (auto simp: max_by_version_def)

lemma merge_empty_new_raises: "bundles new = [] \<Longrightarrow> merge new (Some stored) = Inl IndexError"
  by (simp add: merge_def)

text \<open>
  C6. When the stored document is present and none of its bundle entries has the uuid of
  the new document's bundle, the merged document carries exactly the stored bundles list:
  the new bundle's own entry is not added.
\<close>

theorem merge_unknown_uuid_not_added:
  assumes "bundles new = nb # rest"
    and "\<forall>b \<in> set (bundles stored). uuid b \<noteq> uuid nb"
  shows "merge new (Some stored) = Inr (new\<lparr>bundles := bundles stored\<rparr>)"
proof -
  have "updated_bundles nb (bundles stored) = bundles stored"
    using assms(2) by (intro updated_bundles_unchanged) simp
  with assms(1) show ?thesis by (simp add: merge_def)
qed

theorem merge_unknown_uuid_not_added_witness:
  "merge \<lparr>bundles = [\<lparr>uuid = ''B2'', version = ''2020-01-01T00:00:00.000Z'', bundle_data = (7::nat)\<rparr>],
          other_keys = ''F''\<rparr>
     (Some \<lparr>bundles = [\<lparr>uuid = ''B1'', version = ''2020-01-01T00:00:00.000Z'', bundle_data = 3\<rparr>],
            other_keys = ''F''\<rparr>)
   = Inr \<lparr>bundles = [\<lparr>uuid = ''B1'', version = ''2020-01-01T00:00:00.000Z'', bundle_data = 3\<rparr>],
          other_keys = ''F''\<rparr>"
  using merge_unknown_uuid_not_added
    [of "\<lparr>bundles = [\<lparr>uuid = ''B2'', version = ''2020-01-01T00:00:00.000Z'', bundle_data = (7::nat)\<rparr>],
          other_keys = ''F''\<rparr>"
        "\<lparr>uuid = ''B2'', version = ''2020-01-01T00:00:00.000Z'', bundle_data = (7::nat)\<rparr>" "[]"
        "\<lparr>bundles = [\<lparr>uuid = ''B1'', version = ''2020-01-01T00:00:00.000Z'', bundle_data = 3\<rparr>],
          other_keys = ''F''\<rparr>"]
  by simp

lemma merge_singletons_newer:
  assumes "bundles d1 = [b1]" and "bundles d2 = [b2]" and "uuid b1 = uuid b2"
    and "version b1 < version b2"
  shows "merge d2 (Some d1) = Inr d2" and "merge d1 (Some d2) = Inr (d1\<lparr>bundles := [b2]\<rparr>)"
proof -
  have "merge d2 (Some d1) = Inr (d2\<lparr>bundles := [b2]\<rparr>)"
    using assms by (simp add: merge_def max_by_version_def)
  moreover have "d2\<lparr>bundles := [b2]\<rparr> = d2"
    using assms(2) by simp
  ultimately show "merge d2 (Some d1) = Inr d2" by simp
  show "merge d1 (Some d2) = Inr (d1\<lparr>bundles := [b2]\<rparr>)"
    using assms by (simp add: merge_def max_by_version_def)
qed

text \<open>
  C1, as amended. Merging a document whose bundle version is lower than or equal to the
  version of every stored entry of the same uuid returns the incoming document with the
  stored bundles list, entries and the data they carry unchanged, in place of its own;
  every top-level key outside the bundles list is the incoming document's. For two
  single-entry documents of one bundle at versions v1 < v2, both delivery orders end with
  the bundles list holding the v2 entry; the other top-level keys are those of the
  document delivered last.
\<close>

theorem merge_older_keeps_stored_bundles:
  assumes "bundles new = nb # rest"
    and "\<forall>b \<in> set (bundles stored). uuid b = uuid nb \<longrightarrow> version nb \<le> version b"
  shows "merge new (Some stored) = Inr (new\<lparr>bundles := bundles stored\<rparr>) \<and>
         (bundles d1 = [b1] \<and> bundles d2 = [b2] \<and> uuid b1 = uuid b2 \<and> version b1 < version b2 \<longrightarrow>
            deliver [d1, d2] None = Inr (Some d2) \<and>
            deliver [d2, d1] None = Inr (Some (d1\<lparr>bundles := [b2]\<rparr>)))"
proof (intro conjI impI)
  have "updated_bundles nb (bundles stored) = bundles stored"
    using assms(2) by (rule updated_bundles_unchanged)
  with assms(1) show "merge new (Some stored) = Inr (new\<lparr>bundles := bundles stored\<rparr>)"
    by (simp add: merge_def)
next
  assume h: "bundles d1 = [b1] \<and> bundles d2 = [b2] \<and> uuid b1 = uuid b2 \<and> version b1 < version b2"
  have "merge d1 None = Inr d1" by (simp add: merge_def)
  moreover have "merge d2 (Some d1) = Inr d2"
    using h merge_singletons_newer(1) [of d1 b1 d2 b2] by simp
  ultimately show "deliver [d1, d2] None = Inr (Some d2)" by simp
next
  assume h: "bundles d1 = [b1] \<and> bundles d2 = [b2] \<and> uuid b1 = uuid b2 \<and> version b1 < version b2"
  have "merge d2 None = Inr d2" by (simp add: merge_def)
  moreover have "merge d1 (Some d2) = Inr (d1\<lparr>bundles := [b2]\<rparr>)"
    using h merge_singletons_newer(2) [of d1 b1 d2 b2] by simp
  ultimately show "deliver [d2, d1] None = Inr (Some (d1\<lparr>bundles := [b2]\<rparr>))" by simp
qed

theorem merge_older_keeps_stored_bundles_witness:
  "merge \<lparr>bundles = [\<lparr>uuid = ''B1'', version = ''2020-01-01T00:00:00.000Z'', bundle_data = (100::nat)\<rparr>],
          other_keys = (100::nat)\<rparr>
     (Some \<lparr>bundles = [\<lparr>uuid = ''B1'', version = ''2020-01-02T00:00:00.000Z'', bundle_data = 150\<rparr>],
            other_keys = 150\<rparr>)
   = Inr \<lparr>bundles = [\<lparr>uuid = ''B1'', version = ''2020-01-02T00:00:00.000Z'', bundle_data = 150\<rparr>],
          other_keys = 100\<rparr> \<and>
   deliver
     [\<lparr>bundles = [\<lparr>uuid = ''B1'', version = ''2020-01-01T00:00:00.000Z'', bundle_data = (100::nat)\<rparr>],
        other_keys = (100::nat)\<rparr>,
      \<lparr>bundles = [\<lparr>uuid = ''B1'', version = ''2020-01-02T00:00:00.000Z'', bundle_data = 150\<rparr>],
        other_keys = 150\<rparr>] None
   = Inr (Some \<lparr>bundles = [\<lparr>uuid = ''B1'', version = ''2020-01-02T00:00:00.000Z'', bundle_data = 150\<rparr>],
                other_keys = 150\<rparr>)"
  using merge_older_keeps_stored_bundles
    [of "\<lparr>bundles = [\<lparr>uuid = ''B1'', version = ''2020-01-01T00:00:00.000Z'', bundle_data = (100::nat)\<rparr>],
          other_keys = (100::nat)\<rparr>"
        "\<lparr>uuid = ''B1'', version = ''2020-01-01T00:00:00.000Z'', bundle_data = (100::nat)\<rparr>" "[]"
        "\<lparr>bundles = [\<lparr>uuid = ''B1'', version = ''2020-01-02T00:00:00.000Z'', bundle_data = 150\<rparr>],
          other_keys = 150\<rparr>"
        "\<lparr>bundles = [\<lparr>uuid = ''B1'', version = ''2020-01-01T00:00:00.000Z'', bundle_data = (100::nat)\<rparr>],
          other_keys = (100::nat)\<rparr>"
        "\<lparr>uuid = ''B1'', version = ''2020-01-01T00:00:00.000Z'', bundle_data = (100::nat)\<rparr>"
        "\<lparr>bundles = [\<lparr>uuid = ''B1'', version = ''2020-01-02T00:00:00.000Z'', bundle_data = 150\<rparr>],
          other_keys = 150\<rparr>"
        "\<lparr>uuid = ''B1'', version = ''2020-01-02T00:00:00.000Z'', bundle_data = 150\<rparr>"]
  by simp

text \<open>
  C1 as stated fails: file F is delivered by bundle B1 with size 100 at the earlier version
  and with size 150 at the later one, the size being a top-level key of the document as
  well as data of the bundle entry. Re-delivering the earlier version over the later one
  changes the stored document (its top-level size drops from 150 to 100 while the entry
  stays at the later version), and the two delivery orders end in different documents.
\<close>

theorem merge_older_redelivery_counterexample:
  "merge \<lparr>bundles = [\<lparr>uuid = ''B1'', version = ''2020-01-01T00:00:00.000Z'', bundle_data = (100::nat)\<rparr>],
          other_keys = (100::nat)\<rparr>
     (Some \<lparr>bundles = [\<lparr>uuid = ''B1'', version = ''2020-01-02T00:00:00.000Z'', bundle_data = 150\<rparr>],
            other_keys = 150\<rparr>)
   \<noteq> Inr \<lparr>bundles = [\<lparr>uuid = ''B1'', version = ''2020-01-02T00:00:00.000Z'', bundle_data = 150\<rparr>],
          other_keys = 150\<rparr> \<and>
   deliver
     [\<lparr>bundles = [\<lparr>uuid = ''B1'', version = ''2020-01-02T00:00:00.000Z'', bundle_data = (150::nat)\<rparr>],
        other_keys = (150::nat)\<rparr>,
      \<lparr>bundles = [\<lparr>uuid = ''B1'', version = ''2020-01-01T00:00:00.000Z'', bundle_data = 100\<rparr>],
        other_keys = 100\<rparr>] None
   = Inr (Some \<lparr>bundles = [\<lparr>uuid = ''B1'', version = ''2020-01-02T00:00:00.000Z'', bundle_data = 150\<rparr>],
                other_keys = 100\<rparr>) \<and>
   deliver
     [\<lparr>bundles = [\<lparr>uuid = ''B1'', version = ''2020-01-01T00:00:00.000Z'', bundle_data = (100::nat)\<rparr>],
        other_keys = (100::nat)\<rparr>,
      \<lparr>bundles = [\<lparr>uuid = ''B1'', version = ''2020-01-02T00:00:00.000Z'', bundle_data = 150\<rparr>],
        other_keys = 150\<rparr>] None
   = Inr (Some \<lparr>bundles = [\<lparr>uuid = ''B1'', version = ''2020-01-02T00:00:00.000Z'', bundle_data = 150\<rparr>],
                other_keys = 150\<rparr>)"
  by (simp add: merge_def max_by_version_def)

text \<open>
  C2. With no stored document the result is the new document verbatim. Otherwise the
  result is the new document whose bundles list is the stored list, position by position:
  an entry with the uuid of the new bundle is replaced by the new entry when the new
  version is higher and kept otherwise, and every entry with another uuid is kept.
\<close>

theorem merge_keeps_higher_version:
  assumes "bundles new = nb # rest"
  shows "merge new None = Inr new \<and>
         (\<exists>r. merge new (Some stored) = Inr r \<and> other_keys r = other_keys new \<and>
              length (bundles r) = length (bundles stored) \<and>
              (\<forall>i < length (bundles stored).
                 bundles r ! i =
                   (if uuid (bundles stored ! i) = uuid nb
                    then (if version (bundles stored ! i) < version nb then nb
                          else bundles stored ! i)
                    else bundles stored ! i)))"
proof
  show "merge new None = Inr new" by (simp add: merge_def)
next
  let ?r = "new\<lparr>bundles := updated_bundles nb (bundles stored)\<rparr>"
  have "merge new (Some stored) = Inr ?r"
    using assms by (simp add: merge_def)
  moreover have "other_keys ?r = other_keys new" by simp
  moreover have "length (bundles ?r) = length (bundles stored)"
    by (simp add: length_updated_bundles)
  moreover have "\<forall>i < length (bundles stored).
      bundles ?r ! i =
        (if uuid (bundles stored ! i) = uuid nb
         then (if version (bundles stored ! i) < version nb then nb else bundles stored ! i)
         else bundles stored ! i)"
    by (simp add: nth_updated_bundles max_by_version_def)
  ultimately show "\<exists>r. merge new (Some stored) = Inr r \<and> other_keys r = other_keys new \<and>
      length (bundles r) = length (bundles stored) \<and>
      (\<forall>i < length (bundles stored).
         bundles r ! i =
           (if uuid (bundles stored ! i) = uuid nb
            then (if version (bundles stored ! i) < version nb then nb else bundles stored ! i)
            else bundles stored ! i))"
    by blast
qed

theorem merge_keeps_higher_version_witness:
  "\<exists>r. merge \<lparr>bundles = [\<lparr>uuid = ''B1'', version = ''2020-01-02T00:00:00.000Z'', bundle_data = (150::nat)\<rparr>],
               other_keys = ''F''\<rparr>
          (Some \<lparr>bundles = [\<lparr>uuid = ''B0'', version = ''2020-01-05T00:00:00.000Z'', bundle_data = 7\<rparr>,
                            \<lparr>uuid = ''B1'', version = ''2020-01-01T00:00:00.000Z'', bundle_data = 100\<rparr>],
                 other_keys = ''F''\<rparr>) = Inr r \<and>
       bundles r ! 0 = \<lparr>uuid = ''B0'', version = ''2020-01-05T00:00:00.000Z'', bundle_data = 7\<rparr> \<and>
       bundles r ! 1 = \<lparr>uuid = ''B1'', version = ''2020-01-02T00:00:00.000Z'', bundle_data = 150\<rparr> \<and>
       length (bundles r) = 2"
proof -
  let ?nb = "\<lparr>uuid = ''B1'', version = ''2020-01-02T00:00:00.000Z'', bundle_data = (150::nat)\<rparr>"
  let ?new = "\<lparr>bundles = [?nb], other_keys = ''F''\<rparr>"
  let ?stored = "\<lparr>bundles = [\<lparr>uuid = ''B0'', version = ''2020-01-05T00:00:00.000Z'', bundle_data = (7::nat)\<rparr>,
                            \<lparr>uuid = ''B1'', version = ''2020-01-01T00:00:00.000Z'', bundle_data = 100\<rparr>],
                 other_keys = ''F''\<rparr>"
  have "bundles ?new = ?nb # []" by simp
  from merge_keeps_higher_version [OF this, of ?stored]
  obtain r where r: "merge ?new (Some ?stored) = Inr r"
    and len: "length (bundles r) = length (bundles ?stored)"
    and nth: "\<forall>i < length (bundles ?stored).
                bundles r ! i =
                  (if uuid (bundles ?stored ! i) = uuid ?nb
                   then (if version (bundles ?stored ! i) < version ?nb then ?nb
                         else bundles ?stored ! i)
                   else bundles ?stored ! i)"
    by blast
  from nth have "bundles r ! 0 = \<lparr>uuid = ''B0'', version = ''2020-01-05T00:00:00.000Z'', bundle_data = 7\<rparr>"
    by simp
  moreover from nth have "bundles r ! 1 = ?nb"
    by simp
  moreover from len have "length (bundles r) = 2" by simp
  ultimately show ?thesis using r by blast
qed

lemma deliver_append:
  "deliver (xs @ ys) stored =
     (case deliver xs stored of Inl e \<Rightarrow> Inl e | Inr s \<Rightarrow> deliver ys s)"
  by (induction xs arbitrary: stored) (auto split: sum.splits)

lemma merge_step_monotone:
  assumes "merge new (Some stored) = Inr r"
  shows "length (bundles r) = length (bundles stored) \<and>
         (\<forall>i < length (bundles stored).
            uuid (bundles r ! i) = uuid (bundles stored ! i) \<and>
            version (bundles stored ! i) \<le> version (bundles r ! i))"
proof (cases "bundles new")
  case Nil
  with assms show ?thesis by (simp add: merge_def)
next
  case (Cons nb rest)
  with assms have r: "r = new\<lparr>bundles := updated_bundles nb (bundles stored)\<rparr>"
    by (simp add: merge_def)
  show ?thesis
    unfolding r by (auto simp: length_updated_bundles nth_updated_bundles max_by_version_def)
qed

lemma deliver_monotone:
  "deliver news (Some stored) = Inr (Some r) \<Longrightarrow>
   length (bundles r) = length (bundles stored) \<and>
   (\<forall>i < length (bundles stored).
      uuid (bundles r ! i) = uuid (bundles stored ! i) \<and>
      version (bundles stored ! i) \<le> version (bundles r ! i))"
proof (induction news arbitrary: stored)
  case Nil
  then show ?case by simp
next
  case (Cons new news)
  from Cons.prems obtain u where u: "merge new (Some stored) = Inr u"
    and rest: "deliver news (Some u) = Inr (Some r)"
    by (auto split: sum.splits)
  note a = merge_step_monotone [OF u]
  note b = Cons.IH [OF rest]
  show ?case
  proof (intro conjI allI impI)
    show "length (bundles r) = length (bundles stored)" using a b by simp
  next
    fix i assume "i < length (bundles stored)"
    with a b show "uuid (bundles r ! i) = uuid (bundles stored ! i)" by simp
  next
    fix i assume i: "i < length (bundles stored)"
    with a have "version (bundles stored ! i) \<le> version (bundles u ! i)" by simp
    also from a b i have "\<dots> \<le> version (bundles r ! i)" by simp
    finally show "version (bundles stored ! i) \<le> version (bundles r ! i)" .
  qed
qed

text \<open>
  C5. Along any sequence of deliveries merged into a stored document, every entry of the
  bundles list keeps its uuid and its version never decreases. In particular, delivering
  a bundle at v1, then at v2 > v1, then at v1 again leaves its entry at v2.
\<close>

theorem merge_version_monotone:
  "(deliver news (Some stored) = Inr (Some r) \<longrightarrow>
      length (bundles r) = length (bundles stored) \<and>
      (\<forall>i < length (bundles stored).
         uuid (bundles r ! i) = uuid (bundles stored ! i) \<and>
         version (bundles stored ! i) \<le> version (bundles r ! i))) \<and>
   (bundles d1 = [b1] \<and> bundles d2 = [b2] \<and> uuid b1 = uuid b2 \<and> version b1 < version b2 \<longrightarrow>
      deliver [d1, d2, d1] None = Inr (Some (d1\<lparr>bundles := [b2]\<rparr>)))"
proof (rule conjI)
  show "deliver news (Some stored) = Inr (Some r) \<longrightarrow>
      length (bundles r) = length (bundles stored) \<and>
      (\<forall>i < length (bundles stored).
         uuid (bundles r ! i) = uuid (bundles stored ! i) \<and>
         version (bundles stored ! i) \<le> version (bundles r ! i))"
    using deliver_monotone [of news stored r] by blast
next
  show "bundles d1 = [b1] \<and> bundles d2 = [b2] \<and> uuid b1 = uuid b2 \<and> version b1 < version b2 \<longrightarrow>
      deliver [d1, d2, d1] None = Inr (Some (d1\<lparr>bundles := [b2]\<rparr>))"
  proof
    assume h: "bundles d1 = [b1] \<and> bundles d2 = [b2] \<and> uuid b1 = uuid b2 \<and> version b1 < version b2"
    have 1: "merge d1 None = Inr d1" by (simp add: merge_def)
    have 2: "merge d2 (Some d1) = Inr d2"
      using h merge_singletons_newer(1) [of d1 b1 d2 b2] by simp
    have 3: "merge d1 (Some d2) = Inr (d1\<lparr>bundles := [b2]\<rparr>)"
      using h merge_singletons_newer(2) [of d1 b1 d2 b2] by simp
    show "deliver [d1, d2, d1] None = Inr (Some (d1\<lparr>bundles := [b2]\<rparr>))"
      by (simp add: 1 2 3)
  qed
qed

theorem merge_version_monotone_witness:
  "deliver
     [\<lparr>bundles = [\<lparr>uuid = ''B1'', version = ''2020-01-02T00:00:00.000Z'', bundle_data = (150::nat)\<rparr>],
        other_keys = ''F''\<rparr>,
      \<lparr>bundles = [\<lparr>uuid = ''B1'', version = ''2020-01-01T00:00:00.000Z'', bundle_data = 100\<rparr>],
        other_keys = ''F''\<rparr>]
     (Some \<lparr>bundles = [\<lparr>uuid = ''B1'', version = ''2020-01-01T00:00:00.000Z'', bundle_data = 100\<rparr>],
            other_keys = ''F''\<rparr>)
   = Inr (Some \<lparr>bundles = [\<lparr>uuid = ''B1'', version = ''2020-01-02T00:00:00.000Z'', bundle_data = 150\<rparr>],
                other_keys = ''F''\<rparr>) \<and>
   ''2020-01-01T00:00:00.000Z'' \<le> ''2020-01-02T00:00:00.000Z'' \<and>
   deliver
     [\<lparr>bundles = [\<lparr>uuid = ''B1'', version = ''2020-01-01T00:00:00.000Z'', bundle_data = (100::nat)\<rparr>],
        other_keys = ''F''\<rparr>,
      \<lparr>bundles = [\<lparr>uuid = ''B1'', version = ''2020-01-02T00:00:00.000Z'', bundle_data = 150\<rparr>],
        other_keys = ''F''\<rparr>,
      \<lparr>bundles = [\<lparr>uuid = ''B1'', version = ''2020-01-01T00:00:00.000Z'', bundle_data = 100\<rparr>],
        other_keys = ''F''\<rparr>] None
   = Inr (Some \<lparr>bundles = [\<lparr>uuid = ''B1'', version = ''2020-01-02T00:00:00.000Z'', bundle_data = 150\<rparr>],
                other_keys = ''F''\<rparr>)"
proof -
  let ?b1 = "\<lparr>uuid = ''B1'', version = ''2020-01-01T00:00:00.000Z'', bundle_data = (100::nat)\<rparr>"
  let ?b2 = "\<lparr>uuid = ''B1'', version = ''2020-01-02T00:00:00.000Z'', bundle_data = (150::nat)\<rparr>"
  let ?d1 = "\<lparr>bundles = [?b1], other_keys = ''F''\<rparr>"
  let ?d2 = "\<lparr>bundles = [?b2], other_keys = ''F''\<rparr>"
  have run: "deliver [?d2, ?d1] (Some ?d1) = Inr (Some ?d2)"
    by (simp add: merge_def max_by_version_def)
  note mono = merge_version_monotone [of "[?d2, ?d1]" ?d1 ?d2 ?d1 ?b1 ?d2 ?b2]
  from mono run have "version (bundles ?d1 ! 0) \<le> version (bundles ?d2 ! 0)"
    by simp
  moreover from mono have "deliver [?d1, ?d2, ?d1] None = Inr (Some (?d1\<lparr>bundles := [?b2]\<rparr>))"
    by simp
  ultimately show ?thesis using run by simp
qed

section \<open>Properties of \<^verbatim>\<open>_find_ancestor_samples\<close>\<close>

lemma set_update_subset: "set (AList.update k v al) \<subseteq> insert (k, v) (set al)"
  by (induction al) auto

lemma fold_fas_keys:
  assumes "\<And>p samples. p \<in> set ps \<Longrightarrow>
      fst ` set (find_ancestor_samples p samples) = fst ` set samples \<union> document_id ` sample_ancestors p"
  shows "fst ` set (fold find_ancestor_samples ps samples) =
         fst ` set samples \<union> (\<Union>p \<in> set ps. document_id ` sample_ancestors p)"
  using assms by (induction ps arbitrary: samples) auto

lemma find_ancestor_samples_keys:
  "fst ` set (find_ancestor_samples e samples) = fst ` set samples \<union> document_id ` sample_ancestors e"
proof (induction e samples rule: find_ancestor_samples.induct)
  case (1 did t a ps samples)
  show ?case
  proof (cases "is_sample_type t")
    case True
    then show ?thesis by (auto simp: dom_update)
  next
    case False
    have "fst ` set (fold find_ancestor_samples ps samples) =
         fst ` set samples \<union> (\<Union>p \<in> set ps. document_id ` sample_ancestors p)"
      using 1 False by (intro fold_fas_keys) auto
    with False show ?thesis by auto
  qed
qed

lemma fold_fas_distinct:
  assumes "\<And>p samples. p \<in> set ps \<Longrightarrow> distinct (map fst samples) \<Longrightarrow>
      distinct (map fst (find_ancestor_samples p samples))"
    and "distinct (map fst samples)"
  shows "distinct (map fst (fold find_ancestor_samples ps samples))"
  using assms by (induction ps arbitrary: samples) auto

lemma find_ancestor_samples_distinct:
  "distinct (map fst samples) \<Longrightarrow> distinct (map fst (find_ancestor_samples e samples))"
proof (induction e samples rule: find_ancestor_samples.induct)
  case (1 did t a ps samples)
  show ?case
  proof (cases "is_sample_type t")
    case True
    with 1 show ?thesis by (simp add: distinct_update)
  next
    case False
    have "distinct (map fst (fold find_ancestor_samples ps samples))"
      using 1 False by (intro fold_fas_distinct) auto
    with False show ?thesis by simp
  qed
qed

lemma fold_fas_entries:
  assumes "\<And>p samples. p \<in> set ps \<Longrightarrow>
      set (find_ancestor_samples p samples) \<subseteq> set samples \<union> (\<lambda>s. (document_id s, s)) ` sample_ancestors p"
  shows "set (fold find_ancestor_samples ps samples) \<subseteq>
         set samples \<union> (\<Union>p \<in> set ps. (\<lambda>s. (document_id s, s)) ` sample_ancestors p)"
  using assms
proof (induction ps arbitrary: samples)
  case Nil
  then show ?case by simp
next
  case (Cons p ps)
  have "set (fold find_ancestor_samples ps (find_ancestor_samples p samples)) \<subseteq>
      set (find_ancestor_samples p samples) \<union> (\<Union>p \<in> set ps. (\<lambda>s. (document_id s, s)) ` sample_ancestors p)"
    using Cons.prems by (intro Cons.IH) auto
  moreover have "set (find_ancestor_samples p samples) \<subseteq> set samples \<union> (\<lambda>s. (document_id s, s)) ` sample_ancestors p"
    using Cons.prems by auto
  ultimately show ?case by auto
qed

lemma find_ancestor_samples_entries:
  "set (find_ancestor_samples e samples) \<subseteq> set samples \<union> (\<lambda>s. (document_id s, s)) ` sample_ancestors e"
proof (induction e samples rule: find_ancestor_samples.induct)
  case (1 did t a ps samples)
  show ?case
  proof (cases "is_sample_type t")
    case True
    then show ?thesis using set_update_subset [of did "Entity did t a ps" samples] by auto
  next
    case False
    have "set (fold find_ancestor_samples ps samples) \<subseteq>
         set samples \<union> (\<Union>p \<in> set ps. (\<lambda>s. (document_id s, s)) ` sample_ancestors p)"
      using 1 False by (intro fold_fas_entries) auto
    with False show ?thesis by auto
  qed
qed

lemma diamond_general:
  assumes "sample_ancestors e = {s}"
  shows "find_ancestor_samples e [] = [(document_id s, s)]"
proof -
  let ?r = "find_ancestor_samples e []"
  have keys: "fst ` set ?r = {document_id s}"
    using find_ancestor_samples_keys [of e "[]"] assms by simp
  have dist: "distinct (map fst ?r)"
    by (rule find_ancestor_samples_distinct) simp
  have ent: "set ?r \<subseteq> {(document_id s, s)}"
    using find_ancestor_samples_entries [of e "[]"] assms by simp
  from keys have "?r \<noteq> []" by auto
  then obtain x xs where r: "?r = x # xs" by (cases ?r) auto
  from ent r have x: "x = (document_id s, s)" by simp
  from ent r x have "set xs \<subseteq> {x}" by auto
  moreover from dist r have "x \<notin> set xs"
    using distinct_map [of fst ?r] by simp
  ultimately have "xs = []" by (cases xs) auto
  with r x show ?thesis by simp
qed


text \<open>
  C8. The upward walk of \<^verbatim>\<open>_find_ancestor_samples\<close> ends at an entity of a sample type
  (specimen, cell line, organoid), which it records under its document id, and continues
  through the parents of every other entity. The keys of the result stay distinct, and
  from an empty dict they are the document ids of the entity's sample ancestors. An
  entity whose paths all lead to one specimen gets exactly one entry, that specimen.
\<close>

theorem find_ancestor_samples_dedup:
  "(is_sample_type (entity_type e) \<longrightarrow>
      find_ancestor_samples e samples = AList.update (document_id e) e samples) \<and>
   (\<not> is_sample_type (entity_type e) \<longrightarrow>
      find_ancestor_samples e samples = fold find_ancestor_samples (parents e) samples) \<and>
   (distinct (map fst samples) \<longrightarrow> distinct (map fst (find_ancestor_samples e samples))) \<and>
   fst ` set (find_ancestor_samples e []) = document_id ` sample_ancestors e \<and>
   (sample_ancestors e = {s} \<longrightarrow> find_ancestor_samples e [] = [(document_id s, s)])"
proof (intro conjI impI)
  assume "is_sample_type (entity_type e)"
  then show "find_ancestor_samples e samples = AList.update (document_id e) e samples"
    by (cases e) simp
next
  assume "\<not> is_sample_type (entity_type e)"
  then show "find_ancestor_samples e samples = fold find_ancestor_samples (parents e) samples"
    by (cases e) simp
next
  assume "distinct (map fst samples)"
  then show "distinct (map fst (find_ancestor_samples e samples))"
    by (rule find_ancestor_samples_distinct)
next
  show "fst ` set (find_ancestor_samples e []) = document_id ` sample_ancestors e"
    using find_ancestor_samples_keys [of e "[]"] by simp
next
  assume "sample_ancestors e = {s}"
  then show "find_ancestor_samples e [] = [(document_id s, s)]"
    by (rule diamond_general)
qed

theorem find_ancestor_samples_dedup_witness:
  "sample_ancestors suspension1 = {specimen1} \<and>
   find_ancestor_samples suspension1 [] = [(''specimen-1'', specimen1)]"
proof -
  have 1: "sample_ancestors suspension1 = {specimen1}"
    by (simp add: suspension1_def specimen1_def)
  from find_ancestor_samples_dedup [of suspension1 "[]" specimen1] 1
  have "find_ancestor_samples suspension1 [] = [(document_id specimen1, specimen1)]"
    by blast
  moreover have "document_id specimen1 = ''specimen-1''" by (simp add: specimen1_def)
  ultimately show ?thesis using 1 by simp
qed

section \<open>Properties of \<^verbatim>\<open>_get_project\<close>\<close>

lemma get_project_none: "bundle_projects b = [] \<Longrightarrow> get_project b = Inl ValueError"
  by (simp add: get_project_def)

lemma get_project_one: "bundle_projects b = [p] \<Longrightarrow> get_project b = Inr p"
  by (simp add: get_project_def reject_def)

lemma get_project_many:
  "1 < length (bundle_projects b) \<Longrightarrow>
   get_project b = Inl (RequirementError ''Azul can currently only handle a single project per bundle'')"
  by (cases "bundle_projects b") (auto simp: get_project_def reject_def)

lemma transforms_get_project_error:
  assumes "get_project b = Inl e"
  shows "FileTransformer_transform api d b = ([], Some e)"
    and "CellSuspensionTransformer_transform api d b = ([], Some e)"
    and "SampleTransformer_transform api d b = ([], Some e)"
    and "ProjectTransformer_transform api d b = ([], Some e)"
    and "BundleTransformer_transform api d b = ([], Some e)"
  using assms
  by (simp_all add: FileTransformer_transform_def CellSuspensionTransformer_transform_def
      SampleTransformer_transform_def ProjectTransformer_transform_def
      BundleTransformer_transform_def BundleProjectTransformer_transform_def Let_def)

lemma transforms_get_project_ok:
  assumes "get_project b = Inr p"
  shows "FileTransformer_transform api d b =
           generate (FileTransformer_body api d b p) (bundle_files b)"
    and "CellSuspensionTransformer_transform api d b =
           generate (CellSuspensionTransformer_body api d b p) (bundle_biomaterials b)"
    and "SampleTransformer_transform api d b =
           generate (SampleTransformer_body api d b p)
             (map snd (fold find_ancestor_samples (bundle_files b) []))"
    and "ProjectTransformer_transform api d b =
           BundleProjectTransformer_yield ''projects'' (\<lambda>bundle project. project_document_id project)
             api d b
             (fold (accept_and_ancestors api) (bundle_files b)
                (fold (accept_and_ancestors api) (bundle_specimens b) TransformerVisitor))
             (fold find_ancestor_samples (bundle_files b) []) p"
    and "BundleTransformer_transform api d b =
           (case BundleProjectTransformer_yield ''bundles'' (\<lambda>bundle project. bundle_uuid bundle)
                   api d b
                   (fold (accept_and_ancestors api) (bundle_files b)
                      (fold (accept_and_ancestors api) (bundle_specimens b) TransformerVisitor))
                   (fold find_ancestor_samples (bundle_files b) []) p of
              (contribs, err) \<Rightarrow> (map (with_metadata api b) contribs, err))"
  using assms
  by (simp_all add: FileTransformer_transform_def CellSuspensionTransformer_transform_def
      SampleTransformer_transform_def ProjectTransformer_transform_def
      BundleTransformer_transform_def BundleProjectTransformer_transform_def Let_def)

section \<open>Properties of the visitor and the transformers\<close>

lemma files_visit_protocol: "files (visit_protocol p v) = files v"
  by (simp add: visit_protocol_def)

lemma files_fold_visit_protocol: "files (fold visit_protocol ps v) = files v"
  by (induction ps arbitrary: v) (simp_all add: files_visit_protocol)

lemma visit_keeps_files_indexable:
  assumes "\<forall>x \<in> set (files v). indexable_file (snd x)"
  shows "\<forall>x \<in> set (files (visit e v)). indexable_file (snd x)"
proof (cases "entity_type e")
  case (File f)
  show ?thesis
  proof (cases "is_zarr_chunk (name (manifest_entry f))")
    case True
    with File assms show ?thesis by (simp add: visit_def)
  next
    case False
    with File have e: "indexable_file e" by (simp add: indexable_file_def)
    from File False have "files (visit e v) = AList.update (document_id e) e (files v)"
      by (simp add: visit_def)
    with set_update_subset [of "document_id e" e "files v"] assms e show ?thesis by auto
  qed
next
  case (Process ps)
  with assms show ?thesis by (simp add: visit_def files_fold_visit_protocol)
qed (use assms in \<open>simp_all add: visit_def\<close>)

lemma fold_visit_keeps_files_indexable:
  "\<forall>x \<in> set (files v). indexable_file (snd x) \<Longrightarrow>
   \<forall>x \<in> set (files (fold visit es v)). indexable_file (snd x)"
proof (induction es arbitrary: v)
  case Nil
  then show ?case by simp
next
  case (Cons e es)
  from Cons.prems have "\<forall>x \<in> set (files (visit e v)). indexable_file (snd x)"
    by (rule visit_keeps_files_indexable)
  then show ?case using Cons.IH by simp
qed

lemma accept_and_ancestors_keeps_files_indexable:
  "\<forall>x \<in> set (files v). indexable_file (snd x) \<Longrightarrow>
   \<forall>x \<in> set (files (accept_and_ancestors api e v)). indexable_file (snd x)"
  unfolding accept_and_ancestors_def
  by (intro fold_visit_keeps_files_indexable)

lemma fold_accept_and_ancestors_keeps_files_indexable:
  "\<forall>x \<in> set (files v). indexable_file (snd x) \<Longrightarrow>
   \<forall>x \<in> set (files (fold (accept_and_ancestors api) es v)). indexable_file (snd x)"
proof (induction es arbitrary: v)
  case Nil
  then show ?case by simp
next
  case (Cons e es)
  from Cons.prems have "\<forall>x \<in> set (files (accept_and_ancestors api e v)). indexable_file (snd x)"
    by (rule accept_and_ancestors_keeps_files_indexable)
  then show ?case using Cons.IH by simp
qed

lemma TransformerVisitor_files: "files TransformerVisitor = []"
  by (simp add: TransformerVisitor_def)

lemma traverse_Inr:
  "traverse f xs = Inr ys \<Longrightarrow> \<forall>y \<in> set ys. \<exists>x \<in> set xs. f x = Inr y"
proof (induction xs arbitrary: ys)
  case Nil
  then show ?case by simp
next
  case (Cons x xs)
  from Cons.prems obtain y ys' where y: "f x = Inr y" and t: "traverse f xs = Inr ys'"
    and ys: "ys = y # ys'"
    by (auto simp: bind_result_def split: sum.splits)
  from Cons.IH [OF t] y ys show ?case by auto
qed

lemma file_json_of_indexable:
  "indexable_file e \<Longrightarrow> file_json_of e = Inr j \<Longrightarrow> \<not> is_zarr_chunk (json_name j)"
  by (auto simp: indexable_file_def file_json_of_def split: entity_type.splits)

lemma traverse_file_json_names:
  assumes "traverse file_json_of es = Inr js" and "\<forall>e \<in> set es. indexable_file e"
  shows "\<forall>j \<in> set js. \<not> is_zarr_chunk (json_name j)"
proof
  fix j assume "j \<in> set js"
  with traverse_Inr [OF assms(1)] obtain e where "e \<in> set es" and "file_json_of e = Inr j"
    by blast
  with assms(2) show "\<not> is_zarr_chunk (json_name j)"
    using file_json_of_indexable by blast
qed

lemma make_contents_files:
  "make_contents api sa sp cs cl dn og fl pr project = Inr c \<Longrightarrow>
   traverse file_json_of fl = Inr (contents_files c)"
  unfolding make_contents_def bind_result_def
  by (auto split: sum.splits)

lemma make_contents_file_names:
  assumes "make_contents api sa sp cs cl dn og fl pr project = Inr c"
    and "\<forall>e \<in> set fl. indexable_file e"
  shows "\<forall>j \<in> set (contents_files c). \<not> is_zarr_chunk (json_name j)"
  using traverse_file_json_names [OF make_contents_files [OF assms(1)] assms(2)] .

lemma generate_member:
  "c \<in> set (fst (generate body xs)) \<Longrightarrow> \<exists>x \<in> set xs. body x = Some (Inr c)"
proof (induction xs)
  case Nil
  then show ?case by simp
next
  case (Cons x xs)
  then show ?case
    by (cases "body x") (auto split: sum.splits)
qed

lemma generate_skip:
  "body x = None \<Longrightarrow> generate body (xs @ x # ys) = generate body (xs @ ys)"
  by (induction xs) (auto split: option.splits sum.splits)


lemma bind_make_contribution:
  "bind_result m (\<lambda>k. Inr (make_contribution t b k i d)) = Inr c \<Longrightarrow> m = Inr (contents c)"
  by (auto simp: bind_result_def make_contribution_def split: sum.splits)

lemma visitor_files_indexable:
  "\<forall>e \<in> set (map snd (files (accept_and_ancestors api x TransformerVisitor))). indexable_file e"
  using accept_and_ancestors_keeps_files_indexable [of TransformerVisitor api x]
  by (simp add: TransformerVisitor_files)

lemma FileTransformer_body_files:
  assumes "FileTransformer_body api d b p x = Some (Inr c)"
  shows "\<forall>j \<in> set (contents_files (contents c)). \<not> is_zarr_chunk (json_name j)"
proof (cases "entity_type x")
  case (File f)
  with assms have nz: "\<not> is_zarr_chunk (name (manifest_entry f))"
    by (auto simp: FileTransformer_body_def split: if_splits)
  with File have ix: "\<forall>e \<in> set [x]. indexable_file e" by (simp add: indexable_file_def)
  from assms File nz obtain sa sp cs cl dn og pr where
    "make_contents api sa sp cs cl dn og [x] pr p = Inr (contents c)"
    by (auto simp: FileTransformer_body_def Let_def dest: bind_make_contribution)
  from make_contents_file_names [OF this ix] show ?thesis .
qed (use assms in \<open>simp_all add: FileTransformer_body_def\<close>)

lemma CellSuspensionTransformer_body_files:
  assumes "CellSuspensionTransformer_body api d b p x = Some (Inr c)"
  shows "\<forall>j \<in> set (contents_files (contents c)). \<not> is_zarr_chunk (json_name j)"
proof (cases "entity_type x")
  case CellSuspension
  with assms obtain sa sp cs cl dn og pr where
    "make_contents api sa sp cs cl dn og
       (map snd (files (accept_and_ancestors api x TransformerVisitor))) pr p = Inr (contents c)"
    by (auto simp: CellSuspensionTransformer_body_def Let_def dest: bind_make_contribution)
  from make_contents_file_names [OF this visitor_files_indexable] show ?thesis .
qed (use assms in \<open>simp_all add: CellSuspensionTransformer_body_def\<close>)

lemma SampleTransformer_body_files:
  assumes "SampleTransformer_body api d b p x = Some (Inr c)"
  shows "\<forall>j \<in> set (contents_files (contents c)). \<not> is_zarr_chunk (json_name j)"
proof -
  from assms obtain sa sp cs cl dn og pr where
    "make_contents api sa sp cs cl dn og
       (map snd (files (accept_and_ancestors api x TransformerVisitor))) pr p = Inr (contents c)"
    by (auto simp: SampleTransformer_body_def Let_def dest: bind_make_contribution)
  from make_contents_file_names [OF this visitor_files_indexable] show ?thesis .
qed

lemma BundleProjectTransformer_yield_files:
  assumes "c \<in> set (fst (BundleProjectTransformer_yield t g api d b v samples p))"
    and "\<forall>x \<in> set (files v). indexable_file (snd x)"
  shows "\<forall>j \<in> set (contents_files (contents c)). \<not> is_zarr_chunk (json_name j)"
proof -
  from assms(1) obtain k where
    k: "make_contents api (map snd samples) (map snd (specimens v)) (map snd (cell_suspensions v))
          (map snd (cell_lines v)) (map snd (donors v)) (map snd (organoids v))
          (map snd (files v)) (map snd (protocols v)) p = Inr k"
    and c: "contents c = k"
    by (auto simp: BundleProjectTransformer_yield_def make_contribution_def split: sum.splits)
  from assms(2) have "\<forall>e \<in> set (map snd (files v)). indexable_file e" by simp
  from make_contents_file_names [OF k this] c show ?thesis by simp
qed

lemma BundleProjectTransformer_files:
  assumes "c \<in> set (fst (BundleProjectTransformer_transform t g api d b))"
  shows "\<forall>j \<in> set (contents_files (contents c)). \<not> is_zarr_chunk (json_name j)"
proof (cases "get_project b")
  case (Inl e)
  with assms show ?thesis by (simp add: BundleProjectTransformer_transform_def Let_def)
next
  case (Inr p)
  let ?v = "fold (accept_and_ancestors api) (bundle_files b)
              (fold (accept_and_ancestors api) (bundle_specimens b) TransformerVisitor)"
  have "\<forall>x \<in> set (files ?v). indexable_file (snd x)"
    by (intro fold_accept_and_ancestors_keeps_files_indexable) (simp add: TransformerVisitor_files)
  moreover from assms Inr have
    "c \<in> set (fst (BundleProjectTransformer_yield t g api d b ?v
                     (fold find_ancestor_samples (bundle_files b) []) p))"
    by (simp add: BundleProjectTransformer_transform_def Let_def)
  ultimately show ?thesis by (intro BundleProjectTransformer_yield_files)
qed

lemma transformer_files_not_zarr:
  shows "c \<in> set (fst (FileTransformer_transform api d b)) \<Longrightarrow>
           \<forall>j \<in> set (contents_files (contents c)). \<not> is_zarr_chunk (json_name j)"
    and "c \<in> set (fst (CellSuspensionTransformer_transform api d b)) \<Longrightarrow>
           \<forall>j \<in> set (contents_files (contents c)). \<not> is_zarr_chunk (json_name j)"
    and "c \<in> set (fst (SampleTransformer_transform api d b)) \<Longrightarrow>
           \<forall>j \<in> set (contents_files (contents c)). \<not> is_zarr_chunk (json_name j)"
    and "c \<in> set (fst (ProjectTransformer_transform api d b)) \<Longrightarrow>
           \<forall>j \<in> set (contents_files (contents c)). \<not> is_zarr_chunk (json_name j)"
    and "c \<in> set (fst (BundleTransformer_transform api d b)) \<Longrightarrow>
           \<forall>j \<in> set (contents_files (contents c)). \<not> is_zarr_chunk (json_name j)"
proof -
  show "c \<in> set (fst (FileTransformer_transform api d b)) \<Longrightarrow>
           \<forall>j \<in> set (contents_files (contents c)). \<not> is_zarr_chunk (json_name j)"
    by (cases "get_project b")
      (auto simp: FileTransformer_transform_def
            dest!: generate_member FileTransformer_body_files)
  show "c \<in> set (fst (CellSuspensionTransformer_transform api d b)) \<Longrightarrow>
           \<forall>j \<in> set (contents_files (contents c)). \<not> is_zarr_chunk (json_name j)"
    by (cases "get_project b")
      (auto simp: CellSuspensionTransformer_transform_def
            dest!: generate_member CellSuspensionTransformer_body_files)
  show "c \<in> set (fst (SampleTransformer_transform api d b)) \<Longrightarrow>
           \<forall>j \<in> set (contents_files (contents c)). \<not> is_zarr_chunk (json_name j)"
    by (cases "get_project b")
      (auto simp: SampleTransformer_transform_def Let_def
            dest!: generate_member SampleTransformer_body_files)
  show "c \<in> set (fst (ProjectTransformer_transform api d b)) \<Longrightarrow>
           \<forall>j \<in> set (contents_files (contents c)). \<not> is_zarr_chunk (json_name j)"
    unfolding ProjectTransformer_transform_def by (rule BundleProjectTransformer_files)
  show "c \<in> set (fst (BundleTransformer_transform api d b)) \<Longrightarrow>
           \<forall>j \<in> set (contents_files (contents c)). \<not> is_zarr_chunk (json_name j)"
  proof -
    assume a: "c \<in> set (fst (BundleTransformer_transform api d b))"
    then obtain c0 where c0: "c0 \<in> set (fst (BundleProjectTransformer_transform ''bundles''
        (\<lambda>bundle project. bundle_uuid bundle) api d b))" and c: "c = with_metadata api b c0"
      by (auto simp: BundleTransformer_transform_def split: prod.splits)
    from c have "contents_files (contents c) = contents_files (contents c0)"
      by (simp add: with_metadata_def)
    with BundleProjectTransformer_files [OF c0] show ?thesis by simp
  qed
qed


text \<open>
  C7. A file whose manifest name contains \<^verbatim>\<open>.zarr!\<close> and does not end with \<^verbatim>\<open>.zattrs\<close> is
  skipped by \<^verbatim>\<open>TransformerVisitor.visit\<close> (the visitor is unchanged) and as a root of
  \<^verbatim>\<open>FileTransformer.transform\<close> (the loop body continues, so the transform is the one
  without that file), and no file record in the files list of any contribution of any of
  the five transformers has such a name.
\<close>

theorem zarr_chunks_excluded:
  "(is_zarr_chunk (name (manifest_entry f)) \<longrightarrow>
      visit (Entity did (File f) a ps) v = v \<and>
      FileTransformer_body api deleted b project (Entity did (File f) a ps) = None \<and>
      generate (FileTransformer_body api deleted b project) (xs @ Entity did (File f) a ps # ys) =
        generate (FileTransformer_body api deleted b project) (xs @ ys)) \<and>
   (\<forall>c \<in> set (fst (FileTransformer_transform api deleted b)) \<union>
          set (fst (CellSuspensionTransformer_transform api deleted b)) \<union>
          set (fst (SampleTransformer_transform api deleted b)) \<union>
          set (fst (ProjectTransformer_transform api deleted b)) \<union>
          set (fst (BundleTransformer_transform api deleted b)).
      \<forall>j \<in> set (contents_files (contents c)). \<not> is_zarr_chunk (json_name j))"
proof (rule conjI)
  show "is_zarr_chunk (name (manifest_entry f)) \<longrightarrow>
      visit (Entity did (File f) a ps) v = v \<and>
      FileTransformer_body api deleted b project (Entity did (File f) a ps) = None \<and>
      generate (FileTransformer_body api deleted b project) (xs @ Entity did (File f) a ps # ys) =
        generate (FileTransformer_body api deleted b project) (xs @ ys)"
  proof
    assume z: "is_zarr_chunk (name (manifest_entry f))"
    then have skip: "FileTransformer_body api deleted b project (Entity did (File f) a ps) = None"
      by (simp add: FileTransformer_body_def)
    from z have "visit (Entity did (File f) a ps) v = v"
      by (simp add: visit_def)
    with skip generate_skip [of "FileTransformer_body api deleted b project"
        "Entity did (File f) a ps" xs ys]
    show "visit (Entity did (File f) a ps) v = v \<and>
      FileTransformer_body api deleted b project (Entity did (File f) a ps) = None \<and>
      generate (FileTransformer_body api deleted b project) (xs @ Entity did (File f) a ps # ys) =
        generate (FileTransformer_body api deleted b project) (xs @ ys)"
      by simp
  qed
next
  show "\<forall>c \<in> set (fst (FileTransformer_transform api deleted b)) \<union>
          set (fst (CellSuspensionTransformer_transform api deleted b)) \<union>
          set (fst (SampleTransformer_transform api deleted b)) \<union>
          set (fst (ProjectTransformer_transform api deleted b)) \<union>
          set (fst (BundleTransformer_transform api deleted b)).
      \<forall>j \<in> set (contents_files (contents c)). \<not> is_zarr_chunk (json_name j)"
    using transformer_files_not_zarr [of _ api deleted b] by blast
qed

theorem zarr_chunks_excluded_witness:
  "is_zarr_chunk ''matrix.zarr!expression/0.0'' \<and>
   visit (file_entity ''file-2'' ''matrix.zarr!expression/0.0'') TransformerVisitor = TransformerVisitor \<and>
   map (\<lambda>c. (entity_reference c, map json_name (contents_files (contents c))))
     (fst (FileTransformer_transform example_api False
        (example_bundle [\<lparr>project_document_id = ''project-1'', project_attrs = ()\<rparr>])))
   = [((''files'', ''file-1''), [''reads.fastq.gz''])] \<and>
   map (\<lambda>c. (entity_reference c, map json_name (contents_files (contents c))))
     (fst (BundleTransformer_transform example_api False
        (example_bundle [\<lparr>project_document_id = ''project-1'', project_attrs = ()\<rparr>])))
   = [((''bundles'', ''B1''), [''reads.fastq.gz''])]"
proof -
  have z: "is_zarr_chunk ''matrix.zarr!expression/0.0''" by code_simp
  let ?f = "\<lparr>manifest_entry =
                \<lparr>content_type = ''application/octet-stream'', indexed = False,
                 name = ''matrix.zarr!expression/0.0'',
                 sha256 = ''0'', file_size = 100, file_uuid = ''file-2'',
                 file_version = ''2020-01-01T00:00:00.000Z''\<rparr>,
              file_format = ''bin'', sequence_file = None\<rparr>"
  from z have "is_zarr_chunk (name (manifest_entry ?f))" by simp
  with zarr_chunks_excluded [of ?f "''file-2''" "()"
      "[Entity ''process-3'' (Process []) () [suspension1]]" TransformerVisitor]
  have "visit (Entity ''file-2'' (File ?f) ()
          [Entity ''process-3'' (Process []) () [suspension1]]) TransformerVisitor
        = (TransformerVisitor :: unit visitor)"
    by blast
  then have v: "visit (file_entity ''file-2'' ''matrix.zarr!expression/0.0'') TransformerVisitor
        = TransformerVisitor"
    by (simp add: file_entity_def)
  have f: "map (\<lambda>c. (entity_reference c, map json_name (contents_files (contents c))))
     (fst (FileTransformer_transform example_api False
        (example_bundle [\<lparr>project_document_id = ''project-1'', project_attrs = ()\<rparr>])))
   = [((''files'', ''file-1''), [''reads.fastq.gz''])]"
    by code_simp
  have b: "map (\<lambda>c. (entity_reference c, map json_name (contents_files (contents c))))
     (fst (BundleTransformer_transform example_api False
        (example_bundle [\<lparr>project_document_id = ''project-1'', project_attrs = ()\<rparr>])))
   = [((''bundles'', ''B1''), [''reads.fastq.gz''])]"
    by code_simp
  from z v f b show ?thesis by blast
qed

text \<open>
  C9. For a bundle with more than one project \<^verbatim>\<open>_get_project\<close> raises the requirement
  error, and every transformer ends with that error without having yielded a
  contribution. For a bundle with exactly one project \<^verbatim>\<open>_get_project\<close> returns it and
  every transformer goes on to build its contributions with that project.
\<close>

theorem get_project_single_project:
  "(1 < length (bundle_projects b) \<longrightarrow>
      get_project b =
        Inl (RequirementError ''Azul can currently only handle a single project per bundle'') \<and>
      FileTransformer_transform api deleted b =
        ([], Some (RequirementError ''Azul can currently only handle a single project per bundle'')) \<and>
      CellSuspensionTransformer_transform api deleted b =
        ([], Some (RequirementError ''Azul can currently only handle a single project per bundle'')) \<and>
      SampleTransformer_transform api deleted b =
        ([], Some (RequirementError ''Azul can currently only handle a single project per bundle'')) \<and>
      ProjectTransformer_transform api deleted b =
        ([], Some (RequirementError ''Azul can currently only handle a single project per bundle'')) \<and>
      BundleTransformer_transform api deleted b =
        ([], Some (RequirementError ''Azul can currently only handle a single project per bundle''))) \<and>
   (bundle_projects b = [p] \<longrightarrow>
      get_project b = Inr p \<and>
      FileTransformer_transform api deleted b =
        generate (FileTransformer_body api deleted b p) (bundle_files b) \<and>
      CellSuspensionTransformer_transform api deleted b =
        generate (CellSuspensionTransformer_body api deleted b p) (bundle_biomaterials b) \<and>
      SampleTransformer_transform api deleted b =
        generate (SampleTransformer_body api deleted b p)
          (map snd (fold find_ancestor_samples (bundle_files b) [])) \<and>
      ProjectTransformer_transform api deleted b =
        BundleProjectTransformer_yield ''projects'' (\<lambda>bundle project. project_document_id project)
          api deleted b
          (fold (accept_and_ancestors api) (bundle_files b)
             (fold (accept_and_ancestors api) (bundle_specimens b) TransformerVisitor))
          (fold find_ancestor_samples (bundle_files b) []) p \<and>
      BundleTransformer_transform api deleted b =
        (case BundleProjectTransformer_yield ''bundles'' (\<lambda>bundle project. bundle_uuid bundle)
                api deleted b
                (fold (accept_and_ancestors api) (bundle_files b)
                   (fold (accept_and_ancestors api) (bundle_specimens b) TransformerVisitor))
                (fold find_ancestor_samples (bundle_files b) []) p of
           (contribs, err) \<Rightarrow> (map (with_metadata api b) contribs, err)))"
proof (rule conjI; rule impI)
  assume "1 < length (bundle_projects b)"
  then have g: "get_project b =
      Inl (RequirementError ''Azul can currently only handle a single project per bundle'')"
    by (rule get_project_many)
  from g transforms_get_project_error [OF g, of api deleted]
  show "get_project b =
        Inl (RequirementError ''Azul can currently only handle a single project per bundle'') \<and>
      FileTransformer_transform api deleted b =
        ([], Some (RequirementError ''Azul can currently only handle a single project per bundle'')) \<and>
      CellSuspensionTransformer_transform api deleted b =
        ([], Some (RequirementError ''Azul can currently only handle a single project per bundle'')) \<and>
      SampleTransformer_transform api deleted b =
        ([], Some (RequirementError ''Azul can currently only handle a single project per bundle'')) \<and>
      ProjectTransformer_transform api deleted b =
        ([], Some (RequirementError ''Azul can currently only handle a single project per bundle'')) \<and>
      BundleTransformer_transform api deleted b =
        ([], Some (RequirementError ''Azul can currently only handle a single project per bundle''))"
    by simp
next
  assume "bundle_projects b = [p]"
  then have g: "get_project b = Inr p" by (rule get_project_one)
  from g transforms_get_project_ok [OF g, of api deleted]
  show "get_project b = Inr p \<and>
      FileTransformer_transform api deleted b =
        generate (FileTransformer_body api deleted b p) (bundle_files b) \<and>
      CellSuspensionTransformer_transform api deleted b =
        generate (CellSuspensionTransformer_body api deleted b p) (bundle_biomaterials b) \<and>
      SampleTransformer_transform api deleted b =
        generate (SampleTransformer_body api deleted b p)
          (map snd (fold find_ancestor_samples (bundle_files b) [])) \<and>
      ProjectTransformer_transform api deleted b =
        BundleProjectTransformer_yield ''projects'' (\<lambda>bundle project. project_document_id project)
          api deleted b
          (fold (accept_and_ancestors api) (bundle_files b)
             (fold (accept_and_ancestors api) (bundle_specimens b) TransformerVisitor))
          (fold find_ancestor_samples (bundle_files b) []) p \<and>
      BundleTransformer_transform api deleted b =
        (case BundleProjectTransformer_yield ''bundles'' (\<lambda>bundle project. bundle_uuid bundle)
                api deleted b
                (fold (accept_and_ancestors api) (bundle_files b)
                   (fold (accept_and_ancestors api) (bundle_specimens b) TransformerVisitor))
                (fold find_ancestor_samples (bundle_files b) []) p of
           (contribs, err) \<Rightarrow> (map (with_metadata api b) contribs, err))"
    by simp
qed

theorem get_project_single_project_witness:
  "FileTransformer_transform example_api False
     (example_bundle [\<lparr>project_document_id = ''project-1'', project_attrs = ()\<rparr>,
                      \<lparr>project_document_id = ''project-2'', project_attrs = ()\<rparr>])
   = ([], Some (RequirementError ''Azul can currently only handle a single project per bundle'')) \<and>
   BundleTransformer_transform example_api False
     (example_bundle [\<lparr>project_document_id = ''project-1'', project_attrs = ()\<rparr>,
                      \<lparr>project_document_id = ''project-2'', project_attrs = ()\<rparr>])
   = ([], Some (RequirementError ''Azul can currently only handle a single project per bundle'')) \<and>
   get_project (example_bundle [\<lparr>project_document_id = ''project-1'', project_attrs = ()\<rparr>])
   = Inr \<lparr>project_document_id = ''project-1'', project_attrs = ()\<rparr> \<and>
   map entity_reference (fst (ProjectTransformer_transform example_api False
     (example_bundle [\<lparr>project_document_id = ''project-1'', project_attrs = ()\<rparr>])))
   = [(''projects'', ''project-1'')]"
proof -
  let ?p1 = "\<lparr>project_document_id = ''project-1'', project_attrs = ()\<rparr>"
  let ?p2 = "\<lparr>project_document_id = ''project-2'', project_attrs = ()\<rparr>"
  have many: "1 < length (bundle_projects (example_bundle [?p1, ?p2]))"
    by (simp add: example_bundle_def)
  have one: "bundle_projects (example_bundle [?p1]) = [?p1]"
    by (simp add: example_bundle_def)
  note a = get_project_single_project [of "example_bundle [?p1, ?p2]" example_api False ?p1]
  note b = get_project_single_project [of "example_bundle [?p1]" example_api False ?p1]
  have "map entity_reference (fst (ProjectTransformer_transform example_api False
     (example_bundle [?p1]))) = [(''projects'', ''project-1'')]"
    by code_simp
  with a b many one show ?thesis by blast
qed

text \<open>
  C10. For a bundle with no project \<^verbatim>\<open>_get_project\<close> raises \<open>ValueError\<close> (the unpacking
  fails) and every transformer ends with it without a contribution; so a transformer that
  yields any contribution was given a bundle with at least one project.
\<close>

theorem get_project_no_project:
  "(bundle_projects b = [] \<longrightarrow>
      get_project b = Inl ValueError \<and>
      FileTransformer_transform api deleted b = ([], Some ValueError) \<and>
      CellSuspensionTransformer_transform api deleted b = ([], Some ValueError) \<and>
      SampleTransformer_transform api deleted b = ([], Some ValueError) \<and>
      ProjectTransformer_transform api deleted b = ([], Some ValueError) \<and>
      BundleTransformer_transform api deleted b = ([], Some ValueError)) \<and>
   (fst (FileTransformer_transform api deleted b) \<noteq> [] \<or>
    fst (CellSuspensionTransformer_transform api deleted b) \<noteq> [] \<or>
    fst (SampleTransformer_transform api deleted b) \<noteq> [] \<or>
    fst (ProjectTransformer_transform api deleted b) \<noteq> [] \<or>
    fst (BundleTransformer_transform api deleted b) \<noteq> [] \<longrightarrow>
      bundle_projects b \<noteq> [])"
proof -
  have none: "get_project b = Inl ValueError \<and>
      FileTransformer_transform api deleted b = ([], Some ValueError) \<and>
      CellSuspensionTransformer_transform api deleted b = ([], Some ValueError) \<and>
      SampleTransformer_transform api deleted b = ([], Some ValueError) \<and>
      ProjectTransformer_transform api deleted b = ([], Some ValueError) \<and>
      BundleTransformer_transform api deleted b = ([], Some ValueError)"
    if "bundle_projects b = []"
  proof -
    from that have g: "get_project b = Inl ValueError" by (rule get_project_none)
    from g transforms_get_project_error [OF g, of api deleted] show ?thesis by simp
  qed
  then show ?thesis by auto
qed

theorem get_project_no_project_witness:
  "get_project (example_bundle []) = Inl ValueError \<and>
   FileTransformer_transform example_api False (example_bundle []) = ([], Some ValueError) \<and>
   SampleTransformer_transform example_api False (example_bundle []) = ([], Some ValueError) \<and>
   BundleTransformer_transform example_api False (example_bundle []) = ([], Some ValueError) \<and>
   fst (FileTransformer_transform example_api False
          (example_bundle [\<lparr>project_document_id = ''project-1'', project_attrs = ()\<rparr>])) \<noteq> [] \<and>
   bundle_projects (example_bundle [\<lparr>project_document_id = ''project-1'', project_attrs = ()\<rparr>]) \<noteq> []"
proof -
  let ?p1 = "\<lparr>project_document_id = ''project-1'', project_attrs = ()\<rparr>"
  have none: "bundle_projects (example_bundle []) = []"
    by (simp add: example_bundle_def)
  have out: "fst (FileTransformer_transform example_api False (example_bundle [?p1])) \<noteq> []"
    by code_simp
  note a = get_project_no_project [of "example_bundle []" example_api False]
  note b = get_project_no_project [of "example_bundle [?p1]" example_api False]
  from a b none out show ?thesis by blast
qed

section \<open>Properties of the write loop\<close>

lemma write_document_get_raises:
  "client_get es (store st) = (Inl e, s1) \<Longrightarrow>
   write_document es st = Some (Some e, st\<lparr>store := s1\<rparr>)"
  by (subst write_document.simps) simp

lemma write_document_merge_raises:
  "client_get es (store st) = (Inr existing, s1) \<Longrightarrow>
   merge (document_content st) (map_option response_document existing) = Inl e \<Longrightarrow>
   write_document es st = Some (Some e, st\<lparr>store := s1\<rparr>)"
  by (subst write_document.simps) simp

lemma write_document_written:
  "client_get es (store st) = (Inr existing, s1) \<Longrightarrow>
   merge (document_content st) (map_option response_document existing) = Inr updated \<Longrightarrow>
   client_index es \<lparr>request_body = updated, request_version = existing_version existing + 1,
                    request_version_type = ''external''\<rparr> s1 = (Inr u, s2) \<Longrightarrow>
   write_document es st =
     Some (None, st\<lparr>store := s2, document_content := updated, attempts := Suc (attempts st)\<rparr>)"
  by (subst write_document.simps) simp

lemma write_document_conflict:
  "client_get es (store st) = (Inr existing, s1) \<Longrightarrow>
   merge (document_content st) (map_option response_document existing) = Inr updated \<Longrightarrow>
   client_index es \<lparr>request_body = updated, request_version = existing_version existing + 1,
                    request_version_type = ''external''\<rparr> s1 = (Inl (RequestError info), s2) \<Longrightarrow>
   write_document es st =
     write_document es
       (st\<lparr>store := s2, document_content := updated, attempts := Suc (attempts st)\<rparr>)"
  by (subst write_document.simps) simp

lemma write_document_connection_retry:
  "client_get es (store st) = (Inr existing, s1) \<Longrightarrow>
   merge (document_content st) (map_option response_document existing) = Inr updated \<Longrightarrow>
   client_index es \<lparr>request_body = updated, request_version = existing_version existing + 1,
                    request_version_type = ''external''\<rparr> s1 = (Inl (ConnectionError info), s2) \<Longrightarrow>
   0 < retries st \<Longrightarrow>
   write_document es st =
     write_document es
       (st\<lparr>store := client_sleep es (retries st - 1) s2, retries := retries st - 1,
           document_content := updated,
           attempts := Suc (attempts st), sleeps := sleeps st @ [retries st - 1]\<rparr>)"
  by (subst write_document.simps) simp

lemma write_document_connection_raise:
  "client_get es (store st) = (Inr existing, s1) \<Longrightarrow>
   merge (document_content st) (map_option response_document existing) = Inr updated \<Longrightarrow>
   client_index es \<lparr>request_body = updated, request_version = existing_version existing + 1,
                    request_version_type = ''external''\<rparr> s1 = (Inl (ConnectionError info), s2) \<Longrightarrow>
   \<not> 0 < retries st \<Longrightarrow>
   write_document es st =
     Some (Some (ConnectionError info),
           st\<lparr>store := s2, document_content := updated, attempts := Suc (attempts st)\<rparr>)"
  by (subst write_document.simps) simp

lemma merge_nonempty:
  assumes "bundles new \<noteq> []"
    and "\<forall>r. existing = Some r \<longrightarrow> bundles r \<noteq> []"
  shows "\<exists>updated. merge new existing = Inr updated \<and> bundles updated \<noteq> []"
proof (cases existing)
  case None
  with assms show ?thesis by (simp add: merge_def)
next
  case (Some r)
  from assms(1) obtain nb rest where nb: "bundles new = nb # rest" by (cases "bundles new") auto
  from Some assms(2) have "length (updated_bundles nb (bundles r)) \<noteq> 0"
    by (simp add: length_updated_bundles)
  with Some nb show ?thesis by (auto simp: merge_def)
qed


text \<open>
  C3, as amended. When the loop is entered with \<^verbatim>\<open>retries = 3\<close> and, in four consecutive
  cycles, the read returns, the merge succeeds and the call of \<^verbatim>\<open>es_client.index\<close> raises a
  connection error, the loop makes exactly those four cycles: it sleeps 2, 1 and 0 seconds
  after the first three failures, each time before the next read, and at the fourth
  failure it raises that failure's connection error. It ends with the store as the fourth
  call left it, \<^verbatim>\<open>retries = 0\<close> and the document merged last.
\<close>

theorem index_connection_retries:
  assumes r: "retries st = 3"
    and g1: "client_get es (store st) = (Inr e1, a1)"
    and m1: "merge (document_content st) (map_option response_document e1) = Inr d1"
    and i1: "client_index es
               \<lparr>request_body = d1, request_version = existing_version e1 + 1,
                request_version_type = ''external''\<rparr> a1 = (Inl (ConnectionError x1), s1)"
    and g2: "client_get es (client_sleep es 2 s1) = (Inr e2, a2)"
    and m2: "merge d1 (map_option response_document e2) = Inr d2"
    and i2: "client_index es
               \<lparr>request_body = d2, request_version = existing_version e2 + 1,
                request_version_type = ''external''\<rparr> a2 = (Inl (ConnectionError x2), s2)"
    and g3: "client_get es (client_sleep es 1 s2) = (Inr e3, a3)"
    and m3: "merge d2 (map_option response_document e3) = Inr d3"
    and i3: "client_index es
               \<lparr>request_body = d3, request_version = existing_version e3 + 1,
                request_version_type = ''external''\<rparr> a3 = (Inl (ConnectionError x3), s3)"
    and g4: "client_get es (client_sleep es 0 s3) = (Inr e4, a4)"
    and m4: "merge d3 (map_option response_document e4) = Inr d4"
    and i4: "client_index es
               \<lparr>request_body = d4, request_version = existing_version e4 + 1,
                request_version_type = ''external''\<rparr> a4 = (Inl (ConnectionError x4), s4)"
  shows "write_document es st =
           Some (Some (ConnectionError x4),
                 st\<lparr>store := s4, retries := 0, document_content := d4,
                    attempts := attempts st + 4, sleeps := sleeps st @ [2, 1, 0]\<rparr>)"
proof -
  let ?st1 = "st\<lparr>store := client_sleep es 2 s1, retries := 2, document_content := d1,
                 attempts := Suc (attempts st), sleeps := sleeps st @ [2]\<rparr>"
  let ?st2 = "st\<lparr>store := client_sleep es 1 s2, retries := 1, document_content := d2,
                 attempts := Suc (Suc (attempts st)), sleeps := sleeps st @ [2, 1]\<rparr>"
  let ?st3 = "st\<lparr>store := client_sleep es 0 s3, retries := 0, document_content := d3,
                 attempts := Suc (Suc (Suc (attempts st))), sleeps := sleeps st @ [2, 1, 0]\<rparr>"
  have n: "attempts st + 4 = Suc (Suc (Suc (Suc (attempts st))))" by simp
  have "write_document es st = write_document es ?st1"
    using write_document_connection_retry [OF g1 m1 i1] r by simp
  also have "\<dots> = write_document es ?st2"
    using write_document_connection_retry [of es ?st1 e2 a2 d2 x2 s2] g2 m2 i2 by simp
  also have "\<dots> = write_document es ?st3"
    using write_document_connection_retry [of es ?st2 e3 a3 d3 x3 s3] g3 m3 i3 by simp
  also have "\<dots> = Some (Some (ConnectionError x4),
                 st\<lparr>store := s4, retries := 0, document_content := d4,
                    attempts := Suc (Suc (Suc (Suc (attempts st)))),
                    sleeps := sleeps st @ [2, 1, 0]\<rparr>)"
    using write_document_connection_raise [of es ?st3 e4 a4 d4 x4 s4] g4 m4 i4 by simp
  finally show ?thesis unfolding n .
qed

theorem index_connection_retries_witness:
  "write_document refusing_client
     (initial_write_state []
        \<lparr>bundles = [\<lparr>uuid = ''B1'', version = ''2020-01-01T00:00:00.000Z'', bundle_data = (100::nat)\<rparr>],
         other_keys = ''F''\<rparr>) =
   Some (Some (ConnectionError ''connection refused''),
     \<lparr>store =
        [GetCall,
         IndexCall \<lparr>request_body =
             \<lparr>bundles = [\<lparr>uuid = ''B1'', version = ''2020-01-01T00:00:00.000Z'', bundle_data = 100\<rparr>],
              other_keys = ''F''\<rparr>, request_version = 1, request_version_type = ''external''\<rparr>,
         SleepCall 2,
         GetCall,
         IndexCall \<lparr>request_body =
             \<lparr>bundles = [\<lparr>uuid = ''B1'', version = ''2020-01-01T00:00:00.000Z'', bundle_data = 100\<rparr>],
              other_keys = ''F''\<rparr>, request_version = 1, request_version_type = ''external''\<rparr>,
         SleepCall 1,
         GetCall,
         IndexCall \<lparr>request_body =
             \<lparr>bundles = [\<lparr>uuid = ''B1'', version = ''2020-01-01T00:00:00.000Z'', bundle_data = 100\<rparr>],
              other_keys = ''F''\<rparr>, request_version = 1, request_version_type = ''external''\<rparr>,
         SleepCall 0,
         GetCall,
         IndexCall \<lparr>request_body =
             \<lparr>bundles = [\<lparr>uuid = ''B1'', version = ''2020-01-01T00:00:00.000Z'', bundle_data = 100\<rparr>],
              other_keys = ''F''\<rparr>, request_version = 1, request_version_type = ''external''\<rparr>],
      retries = 0,
      document_content =
        \<lparr>bundles = [\<lparr>uuid = ''B1'', version = ''2020-01-01T00:00:00.000Z'', bundle_data = 100\<rparr>],
         other_keys = ''F''\<rparr>,
      attempts = 4, sleeps = [2, 1, 0]\<rparr>)"
proof -
  define new :: "(nat, string) document" where
    "new = \<lparr>bundles = [\<lparr>uuid = ''B1'', version = ''2020-01-01T00:00:00.000Z'',
                        bundle_data = 100\<rparr>], other_keys = ''F''\<rparr>"
  define req :: "(nat, string) call" where
    "req = IndexCall \<lparr>request_body = new, request_version = 1, request_version_type = ''external''\<rparr>"
  define es :: "((nat, string) call list, nat, string) es_client" where "es = refusing_client"
  define st where "st = initial_write_state ([] :: (nat, string) call list) new"
  have get: "client_get es calls = (Inr None, calls @ [GetCall])" for calls
    by (simp add: es_def refusing_client_def)
  have idx: "client_index es
      \<lparr>request_body = new, request_version = existing_version None + 1,
       request_version_type = ''external''\<rparr> calls =
      (Inl (ConnectionError ''connection refused''), calls @ [req])" for calls
    by (simp add: es_def refusing_client_def req_def existing_version_def)
  have slp: "client_sleep es n calls = calls @ [SleepCall n]" for n calls
    by (simp add: es_def refusing_client_def)
  have mrg: "merge new (map_option response_document None) = Inr new"
    by (simp add: merge_def)
  have st: "retries st = 3" "store st = []" "document_content st = new" "attempts st = 0"
    "sleeps st = []"
    by (simp_all add: st_def initial_write_state_def)
  have "write_document es st =
      Some (Some (ConnectionError ''connection refused''),
        st\<lparr>store := [GetCall, req, SleepCall 2, GetCall, req, SleepCall 1, GetCall, req,
                      SleepCall 0, GetCall, req],
           retries := 0, document_content := new,
           attempts := attempts st + 4, sleeps := sleeps st @ [2, 1, 0]\<rparr>)"
  proof (rule index_connection_retries
      [where ?e1.0 = None and ?e2.0 = None and ?e3.0 = None and ?e4.0 = None
         and ?d1.0 = new and ?d2.0 = new and ?d3.0 = new
         and ?a1.0 = "[GetCall]"
         and ?s1.0 = "[GetCall, req]"
         and ?a2.0 = "[GetCall, req, SleepCall 2, GetCall]"
         and ?s2.0 = "[GetCall, req, SleepCall 2, GetCall, req]"
         and ?a3.0 = "[GetCall, req, SleepCall 2, GetCall, req, SleepCall 1, GetCall]"
         and ?s3.0 = "[GetCall, req, SleepCall 2, GetCall, req, SleepCall 1, GetCall, req]"
         and ?a4.0 = "[GetCall, req, SleepCall 2, GetCall, req, SleepCall 1, GetCall, req,
                       SleepCall 0, GetCall]"
         and ?x1.0 = "''connection refused''" and ?x2.0 = "''connection refused''"
         and ?x3.0 = "''connection refused''"])
    show "retries st = 3" by (rule st)
    show "client_get es (store st) = (Inr None, [GetCall])"
      unfolding st get by simp
    show "merge (document_content st) (map_option response_document None) = Inr new"
      unfolding st by (rule mrg)
    show "merge new (map_option response_document None) = Inr new" by (rule mrg)
    show "merge new (map_option response_document None) = Inr new" by (rule mrg)
    show "merge new (map_option response_document None) = Inr new" by (rule mrg)
    show "client_index es
       \<lparr>request_body = new, request_version = existing_version None + 1,
          request_version_type = ''external''\<rparr> [GetCall] =
      (Inl (ConnectionError ''connection refused''), [GetCall, req])"
      unfolding idx by simp
    show "client_get es (client_sleep es 2 [GetCall, req]) =
      (Inr None, [GetCall, req, SleepCall 2, GetCall])"
      unfolding slp get by simp
    show "client_index es
       \<lparr>request_body = new, request_version = existing_version None + 1,
          request_version_type = ''external''\<rparr> [GetCall, req, SleepCall 2, GetCall] =
      (Inl (ConnectionError ''connection refused''), [GetCall, req, SleepCall 2, GetCall, req])"
      unfolding idx by simp
    show "client_get es (client_sleep es 1 [GetCall, req, SleepCall 2, GetCall, req]) =
      (Inr None, [GetCall, req, SleepCall 2, GetCall, req, SleepCall 1, GetCall])"
      unfolding slp get by simp
    show "client_index es
       \<lparr>request_body = new, request_version = existing_version None + 1,
          request_version_type = ''external''\<rparr>
       [GetCall, req, SleepCall 2, GetCall, req, SleepCall 1, GetCall] =
      (Inl (ConnectionError ''connection refused''),
       [GetCall, req, SleepCall 2, GetCall, req, SleepCall 1, GetCall, req])"
      unfolding idx by simp
    show "client_get es
       (client_sleep es 0 [GetCall, req, SleepCall 2, GetCall, req, SleepCall 1, GetCall, req]) =
      (Inr None, [GetCall, req, SleepCall 2, GetCall, req, SleepCall 1, GetCall, req,
                  SleepCall 0, GetCall])"
      unfolding slp get by simp
    show "client_index es
       \<lparr>request_body = new, request_version = existing_version None + 1,
          request_version_type = ''external''\<rparr>
       [GetCall, req, SleepCall 2, GetCall, req, SleepCall 1, GetCall, req, SleepCall 0, GetCall] =
      (Inl (ConnectionError ''connection refused''),
       [GetCall, req, SleepCall 2, GetCall, req, SleepCall 1, GetCall, req, SleepCall 0,
        GetCall, req])"
      unfolding idx by simp
  qed
  then show ?thesis
    unfolding st_def es_def req_def new_def initial_write_state_def by simp
qed


text \<open>
  C3 as stated fails. When the store cannot be reached at all, the read, which is outside
  the \<^verbatim>\<open>try\<close>, raises its connection error at once: one read, no write attempt, no
  sleep, \<^verbatim>\<open>retries\<close> still 3. And when the stored document has an empty bundles list, the
  first cycle merges to a document without bundles, its write fails, and the merge of the
  second cycle raises \<open>IndexError\<close> after a single write attempt, although every one of
  the next writes would have failed with a connection error too.
\<close>

theorem index_connection_retries_counterexample:
  "write_document unreachable_client
     (initial_write_state []
        \<lparr>bundles = [\<lparr>uuid = ''B1'', version = ''2020-01-01T00:00:00.000Z'', bundle_data = (100::nat)\<rparr>],
         other_keys = ''F''\<rparr>) =
   Some (Some (ConnectionError ''connection refused''),
     \<lparr>store = [GetCall], retries = 3,
      document_content =
        \<lparr>bundles = [\<lparr>uuid = ''B1'', version = ''2020-01-01T00:00:00.000Z'', bundle_data = 100\<rparr>],
         other_keys = ''F''\<rparr>,
      attempts = 0, sleeps = []\<rparr>) \<and>
   map_option (\<lambda>(e, st). (e, attempts st, sleeps st, retries st, pending (store st)))
     (write_document store_client
        (initial_write_state
           \<lparr>store_document =
              Some \<lparr>response_version = Some 1,
                    response_document = \<lparr>bundles = [], other_keys = ''F''\<rparr>\<rparr>,
            pending = [ConnectionLost ''e1'', ConnectionLost ''e2'', ConnectionLost ''e3'',
                       ConnectionLost ''e4''],
            received = []\<rparr>
           \<lparr>bundles = [\<lparr>uuid = ''B1'', version = ''2020-01-01T00:00:00.000Z'', bundle_data = (100::nat)\<rparr>],
            other_keys = ''F''\<rparr>))
   = Some (Some IndexError, 1, [2], 2,
           [ConnectionLost ''e2'', ConnectionLost ''e3'', ConnectionLost ''e4''])"
proof (rule conjI)
  show "write_document unreachable_client
     (initial_write_state []
        \<lparr>bundles = [\<lparr>uuid = ''B1'', version = ''2020-01-01T00:00:00.000Z'', bundle_data = (100::nat)\<rparr>],
         other_keys = ''F''\<rparr>) =
   Some (Some (ConnectionError ''connection refused''),
     \<lparr>store = [GetCall], retries = 3,
      document_content =
        \<lparr>bundles = [\<lparr>uuid = ''B1'', version = ''2020-01-01T00:00:00.000Z'', bundle_data = 100\<rparr>],
         other_keys = ''F''\<rparr>,
      attempts = 0, sleeps = []\<rparr>)"
    by code_simp
next
  show "map_option (\<lambda>(e, st). (e, attempts st, sleeps st, retries st, pending (store st)))
     (write_document store_client
        (initial_write_state
           \<lparr>store_document =
              Some \<lparr>response_version = Some 1,
                    response_document = \<lparr>bundles = [], other_keys = ''F''\<rparr>\<rparr>,
            pending = [ConnectionLost ''e1'', ConnectionLost ''e2'', ConnectionLost ''e3'',
                       ConnectionLost ''e4''],
            received = []\<rparr>
           \<lparr>bundles = [\<lparr>uuid = ''B1'', version = ''2020-01-01T00:00:00.000Z'', bundle_data = (100::nat)\<rparr>],
            other_keys = ''F''\<rparr>))
   = Some (Some IndexError, 1, [2], 2,
           [ConnectionLost ''e2'', ConnectionLost ''e3'', ConnectionLost ''e4''])"
    by code_simp
qed

lemma four_connection_failures_then_available:
  "map_option (\<lambda>(e, st). (e, attempts st, sleeps st, retries st, pending (store st),
                            store_document (store st), map request_version (received (store st))))
     (write_document store_client
        (initial_write_state
           \<lparr>store_document = None,
            pending = [ConnectionLost ''e1'', ConnectionLost ''e2'', ConnectionLost ''e3'',
                       ConnectionLost ''e4''],
            received = []\<rparr>
           \<lparr>bundles = [\<lparr>uuid = ''B1'', version = ''2020-01-01T00:00:00.000Z'', bundle_data = (100::nat)\<rparr>],
            other_keys = ''F''\<rparr>))
   = Some (Some (ConnectionError ''e4''), 4, [2, 1, 0], 0, [], None, [1, 1, 1, 1])"
  by code_simp

lemma three_connection_failures_then_written:
  "map_option (\<lambda>(e, st). (e, attempts st, sleeps st, retries st,
                            map_option response_version (store_document (store st))))
     (write_document store_client
        (initial_write_state
           \<lparr>store_document = None,
            pending = [ConnectionLost ''e1'', ConnectionLost ''e2'', ConnectionLost ''e3''],
            received = []\<rparr>
           \<lparr>bundles = [\<lparr>uuid = ''B1'', version = ''2020-01-01T00:00:00.000Z'', bundle_data = (100::nat)\<rparr>],
            other_keys = ''F''\<rparr>))
   = Some (None, 4, [2, 1, 0], 0, Some (Some 1))"
  by code_simp

lemma store_step_rival:
  assumes p: "pending (store st) = Rival d # later"
    and m: "merge (document_content st)
              (map_option response_document (store_document (store st))) = Inr updated"
  shows "write_document store_client st =
         write_document store_client
           (st\<lparr>store := (store st)
                  \<lparr>received := received (store st) @
                     [\<lparr>request_body = updated,
                       request_version = existing_version (store_document (store st)) + 1,
                       request_version_type = ''external''\<rparr>],
                   pending := later,
                   store_document :=
                     Some \<lparr>response_version = Some (existing_version (store_document (store st)) + 1),
                           response_document = d\<rparr>\<rparr>,
               document_content := updated, attempts := Suc (attempts st)\<rparr>)"
proof -
  let ?req = "\<lparr>request_body = updated,
               request_version = existing_version (store_document (store st)) + 1,
               request_version_type = ''external''\<rparr>"
  have g: "client_get store_client (store st) = (Inr (store_document (store st)), store st)"
    by (simp add: store_client_def store_get_def)
  have i: "client_index store_client ?req (store st) =
      (Inl (RequestError ''version_conflict_engine_exception''),
       (store st)\<lparr>received := received (store st) @ [?req], pending := later,
                   store_document :=
                     Some \<lparr>response_version = Some (existing_version (store_document (store st)) + 1),
                           response_document = d\<rparr>\<rparr>)"
    using p
    by (simp add: store_client_def store_index_def versioned_put_def rival_put_def
        existing_version_def)
  from write_document_conflict [OF g m i] show ?thesis .
qed

lemma store_step_quiet:
  assumes p: "pending (store st) = []"
    and m: "merge (document_content st)
              (map_option response_document (store_document (store st))) = Inr updated"
  shows "write_document store_client st =
         Some (None,
           st\<lparr>store := (store st)
                  \<lparr>received := received (store st) @
                     [\<lparr>request_body = updated,
                       request_version = existing_version (store_document (store st)) + 1,
                       request_version_type = ''external''\<rparr>],
                   store_document :=
                     Some \<lparr>response_version = Some (existing_version (store_document (store st)) + 1),
                           response_document = updated\<rparr>\<rparr>,
               document_content := updated, attempts := Suc (attempts st)\<rparr>)"
proof -
  let ?req = "\<lparr>request_body = updated,
               request_version = existing_version (store_document (store st)) + 1,
               request_version_type = ''external''\<rparr>"
  have g: "client_get store_client (store st) = (Inr (store_document (store st)), store st)"
    by (simp add: store_client_def store_get_def)
  have i: "client_index store_client ?req (store st) =
      (Inr (),
       (store st)\<lparr>received := received (store st) @ [?req],
                   store_document :=
                     Some \<lparr>response_version = Some (existing_version (store_document (store st)) + 1),
                           response_document = updated\<rparr>\<rparr>)"
    using p
    by (simp add: store_client_def store_index_def versioned_put_def)
  from write_document_written [OF g m i] show ?thesis .
qed


lemma versions_from:
  "(v + 1, t) # map (\<lambda>i. (v + 1 + int i + 1, t)) [0..<Suc n] =
   map (\<lambda>i. (v + int i + 1, t)) [0..<Suc (Suc n)]"
proof -
  have "map (\<lambda>i. (v + int i + 1, t)) [0..<Suc (Suc n)] =
        (v + int 0 + 1, t) # map (\<lambda>i. (v + int (Suc i) + 1, t)) [0..<Suc n]"
    by (rule map_upt_Suc)
  also have "map (\<lambda>i. (v + int (Suc i) + 1, t)) [0..<Suc n] =
             map (\<lambda>i. (v + 1 + int i + 1, t)) [0..<Suc n]"
    by (rule map_cong) simp_all
  finally show ?thesis by simp
qed

lemma rivals_run:
  "pending (store st) = map Rival ds \<Longrightarrow>
   bundles (document_content st) \<noteq> [] \<Longrightarrow>
   (\<forall>r. store_document (store st) = Some r \<longrightarrow> bundles (response_document r) \<noteq> []) \<Longrightarrow>
   (\<forall>d \<in> set ds. bundles d \<noteq> []) \<Longrightarrow>
   \<exists>st'. write_document store_client st = Some (None, st') \<and>
      attempts st' = attempts st + length ds + 1 \<and>
      retries st' = retries st \<and> sleeps st' = sleeps st \<and>
      pending (store st') = [] \<and>
      store_document (store st') =
        Some \<lparr>response_version =
                 Some (existing_version (store_document (store st)) + int (length ds) + 1),
              response_document = document_content st'\<rparr> \<and>
      map (\<lambda>r. (request_version r, request_version_type r)) (received (store st')) =
        map (\<lambda>r. (request_version r, request_version_type r)) (received (store st)) @
        map (\<lambda>i. (existing_version (store_document (store st)) + int i + 1, ''external''))
          [0..<Suc (length ds)]"
proof (induction ds arbitrary: st)
  case Nil
  from Nil.prems(3) have
    "\<forall>r. map_option response_document (store_document (store st)) = Some r \<longrightarrow> bundles r \<noteq> []"
    by auto
  with merge_nonempty [OF Nil.prems(2)] obtain updated where
    m: "merge (document_content st)
          (map_option response_document (store_document (store st))) = Inr updated"
    by blast
  from Nil.prems(1) have p: "pending (store st) = []" by simp
  show ?case
    unfolding store_step_quiet [OF p m] using p by simp
next
  case (Cons d ds)
  from Cons.prems(3) have
    "\<forall>r. map_option response_document (store_document (store st)) = Some r \<longrightarrow> bundles r \<noteq> []"
    by auto
  with merge_nonempty [OF Cons.prems(2)] obtain updated where
    m: "merge (document_content st)
          (map_option response_document (store_document (store st))) = Inr updated"
    and u: "bundles updated \<noteq> []"
    by blast
  from Cons.prems(1) have p: "pending (store st) = Rival d # map Rival ds" by simp
  let ?v = "existing_version (store_document (store st))"
  let ?st = "st\<lparr>store := (store st)
                  \<lparr>received := received (store st) @
                     [\<lparr>request_body = updated, request_version = ?v + 1,
                       request_version_type = ''external''\<rparr>],
                   pending := map Rival ds,
                   store_document :=
                     Some \<lparr>response_version = Some (?v + 1), response_document = d\<rparr>\<rparr>,
               document_content := updated, attempts := Suc (attempts st)\<rparr>"
  have step: "write_document store_client st = write_document store_client ?st"
    by (rule store_step_rival [OF p m])
  have 1: "pending (store ?st) = map Rival ds" by simp
  have 2: "bundles (document_content ?st) \<noteq> []" using u by simp
  have 3: "\<forall>r. store_document (store ?st) = Some r \<longrightarrow> bundles (response_document r) \<noteq> []"
    using Cons.prems(4) by auto
  have 4: "\<forall>d \<in> set ds. bundles d \<noteq> []" using Cons.prems(4) by simp
  have v: "existing_version (store_document (store ?st)) = ?v + 1"
    by (simp add: existing_version_def)
  from Cons.IH [OF 1 2 3 4] obtain st' where
    run: "write_document store_client ?st = Some (None, st')"
    and a: "attempts st' = attempts ?st + length ds + 1"
    and r: "retries st' = retries ?st" "sleeps st' = sleeps ?st" "pending (store st') = []"
    and sd: "store_document (store st') =
        Some \<lparr>response_version =
                 Some (existing_version (store_document (store ?st)) + int (length ds) + 1),
              response_document = document_content st'\<rparr>"
    and rc: "map (\<lambda>r. (request_version r, request_version_type r)) (received (store st')) =
        map (\<lambda>r. (request_version r, request_version_type r)) (received (store ?st)) @
        map (\<lambda>i. (existing_version (store_document (store ?st)) + int i + 1, ''external''))
          [0..<Suc (length ds)]"
    by blast
  have "write_document store_client st = Some (None, st')" using step run by simp
  moreover have "attempts st' = attempts st + length (d # ds) + 1" using a by simp
  moreover have "retries st' = retries st" "sleeps st' = sleeps st" "pending (store st') = []"
    using r by simp_all
  moreover have "store_document (store st') =
        Some \<lparr>response_version = Some (?v + int (length (d # ds)) + 1),
              response_document = document_content st'\<rparr>"
    using sd unfolding v by simp
  moreover have "map (\<lambda>r. (request_version r, request_version_type r)) (received (store st')) =
        map (\<lambda>r. (request_version r, request_version_type r)) (received (store st)) @
        map (\<lambda>i. (?v + int i + 1, ''external'')) [0..<Suc (length (d # ds))]"
  proof -
    have "map (\<lambda>r. (request_version r, request_version_type r)) (received (store st')) =
        map (\<lambda>r. (request_version r, request_version_type r)) (received (store st)) @
        ((?v + 1, ''external'') #
         map (\<lambda>i. (?v + 1 + int i + 1, ''external'')) [0..<Suc (length ds)])"
      using rc unfolding v by simp
    also have "(?v + 1, ''external'') #
         map (\<lambda>i. (?v + 1 + int i + 1, ''external'')) [0..<Suc (length ds)] =
         map (\<lambda>i. (?v + int i + 1, ''external'')) [0..<Suc (Suc (length ds))]"
      by (rule versions_from)
    finally show ?thesis by simp
  qed
  ultimately show ?case by blast
qed

text \<open>
  C4. In every cycle of the loop whose read and merge succeed: when nothing is stored the
  merged document is the new content verbatim and the version submitted is 1; in general
  the request carries the merged document, the version read plus 1 and the version type
  \<^verbatim>\<open>external\<close>; when the write is accepted the loop ends, and when it is rejected with a
  \<open>RequestError\<close> the loop starts another full cycle from the read in a state whose
  \<^verbatim>\<open>retries\<close> is untouched. Against the store with external versioning, each concurrent
  write that lands between the read and the write makes the store reject the request;
  after any number of such rejections the document is written under the last stored
  version plus 1, every request having carried the version read plus 1, and the retry
  budget and the sleeps are as they were.
\<close>

theorem index_external_versioning:
  "(client_get es (store st) = (Inr existing, s1) \<and>
    merge (document_content st) (map_option response_document existing) = Inr updated \<longrightarrow>
      (existing = None \<longrightarrow> updated = document_content st \<and> existing_version existing + 1 = 1) \<and>
      (client_index es
         \<lparr>request_body = updated, request_version = existing_version existing + 1,
          request_version_type = ''external''\<rparr> s1 = (Inr u, s2) \<longrightarrow>
       write_document es st =
         Some (None, st\<lparr>store := s2, document_content := updated,
                        attempts := Suc (attempts st)\<rparr>)) \<and>
      (client_index es
         \<lparr>request_body = updated, request_version = existing_version existing + 1,
          request_version_type = ''external''\<rparr> s1 = (Inl (RequestError info), s2) \<longrightarrow>
       write_document es st =
         write_document es
           (st\<lparr>store := s2, document_content := updated, attempts := Suc (attempts st)\<rparr>))) \<and>
   (pending (store wst) = map Rival ds \<and>
    bundles (document_content wst) \<noteq> [] \<and>
    (\<forall>r. store_document (store wst) = Some r \<longrightarrow> bundles (response_document r) \<noteq> []) \<and>
    (\<forall>d \<in> set ds. bundles d \<noteq> []) \<longrightarrow>
      (\<exists>st'. write_document store_client wst = Some (None, st') \<and>
         attempts st' = attempts wst + length ds + 1 \<and>
         retries st' = retries wst \<and> sleeps st' = sleeps wst \<and>
         pending (store st') = [] \<and>
         store_document (store st') =
           Some \<lparr>response_version =
                    Some (existing_version (store_document (store wst)) + int (length ds) + 1),
                 response_document = document_content st'\<rparr> \<and>
         map (\<lambda>r. (request_version r, request_version_type r)) (received (store st')) =
           map (\<lambda>r. (request_version r, request_version_type r)) (received (store wst)) @
           map (\<lambda>i. (existing_version (store_document (store wst)) + int i + 1, ''external''))
             [0..<Suc (length ds)]))"
proof (rule conjI)
  show "client_get es (store st) = (Inr existing, s1) \<and>
    merge (document_content st) (map_option response_document existing) = Inr updated \<longrightarrow>
      (existing = None \<longrightarrow> updated = document_content st \<and> existing_version existing + 1 = 1) \<and>
      (client_index es
         \<lparr>request_body = updated, request_version = existing_version existing + 1,
          request_version_type = ''external''\<rparr> s1 = (Inr u, s2) \<longrightarrow>
       write_document es st =
         Some (None, st\<lparr>store := s2, document_content := updated,
                        attempts := Suc (attempts st)\<rparr>)) \<and>
      (client_index es
         \<lparr>request_body = updated, request_version = existing_version existing + 1,
          request_version_type = ''external''\<rparr> s1 = (Inl (RequestError info), s2) \<longrightarrow>
       write_document es st =
         write_document es
           (st\<lparr>store := s2, document_content := updated, attempts := Suc (attempts st)\<rparr>))"
    apply (rule impI, elim conjE, intro conjI impI)
    subgoal by (simp add: merge_def)
    subgoal by (simp add: existing_version_def)
    subgoal by (rule write_document_written)
    subgoal by (rule write_document_conflict)
    done
next
  show "pending (store wst) = map Rival ds \<and>
    bundles (document_content wst) \<noteq> [] \<and>
    (\<forall>r. store_document (store wst) = Some r \<longrightarrow> bundles (response_document r) \<noteq> []) \<and>
    (\<forall>d \<in> set ds. bundles d \<noteq> []) \<longrightarrow>
      (\<exists>st'. write_document store_client wst = Some (None, st') \<and>
         attempts st' = attempts wst + length ds + 1 \<and>
         retries st' = retries wst \<and> sleeps st' = sleeps wst \<and>
         pending (store st') = [] \<and>
         store_document (store st') =
           Some \<lparr>response_version =
                    Some (existing_version (store_document (store wst)) + int (length ds) + 1),
                 response_document = document_content st'\<rparr> \<and>
         map (\<lambda>r. (request_version r, request_version_type r)) (received (store st')) =
           map (\<lambda>r. (request_version r, request_version_type r)) (received (store wst)) @
           map (\<lambda>i. (existing_version (store_document (store wst)) + int i + 1, ''external''))
             [0..<Suc (length ds)])"
    apply (rule impI, elim conjE)
    apply (rule rivals_run)
       apply assumption+
    done
qed


theorem index_external_versioning_witness:
  "\<exists>st'. write_document store_client
       (initial_write_state
          \<lparr>store_document =
             Some \<lparr>response_version = Some 5,
                   response_document =
                     \<lparr>bundles = [\<lparr>uuid = ''B1'', version = ''2020-01-01T00:00:00.000Z'',
                                  bundle_data = (100::nat)\<rparr>],
                      other_keys = ''F''\<rparr>\<rparr>,
           pending =
             [Rival \<lparr>bundles = [\<lparr>uuid = ''B1'', version = ''2020-01-03T00:00:00.000Z'',
                                  bundle_data = 170\<rparr>],
                     other_keys = ''F''\<rparr>],
           received = []\<rparr>
          \<lparr>bundles = [\<lparr>uuid = ''B1'', version = ''2020-01-02T00:00:00.000Z'', bundle_data = 150\<rparr>],
           other_keys = ''F''\<rparr>) = Some (None, st') \<and>
     attempts st' = 2 \<and> retries st' = 3 \<and> sleeps st' = [] \<and>
     map (\<lambda>r. (request_version r, request_version_type r)) (received (store st')) =
       [(6, ''external''), (7, ''external'')] \<and>
     map_option response_version (store_document (store st')) = Some (Some 7)"
proof -
  define old :: "(nat, string) document" where
    "old = \<lparr>bundles = [\<lparr>uuid = ''B1'', version = ''2020-01-01T00:00:00.000Z'',
                        bundle_data = 100\<rparr>], other_keys = ''F''\<rparr>"
  define rival :: "(nat, string) document" where
    "rival = \<lparr>bundles = [\<lparr>uuid = ''B1'', version = ''2020-01-03T00:00:00.000Z'',
                          bundle_data = 170\<rparr>], other_keys = ''F''\<rparr>"
  define new :: "(nat, string) document" where
    "new = \<lparr>bundles = [\<lparr>uuid = ''B1'', version = ''2020-01-02T00:00:00.000Z'',
                        bundle_data = 150\<rparr>], other_keys = ''F''\<rparr>"
  define wst where
    "wst = initial_write_state
       \<lparr>store_document = Some \<lparr>response_version = Some 5, response_document = old\<rparr>,
        pending = [Rival rival], received = []\<rparr> new"
  have h: "pending (store wst) = map Rival [rival] \<and>
    bundles (document_content wst) \<noteq> [] \<and>
    (\<forall>r. store_document (store wst) = Some r \<longrightarrow> bundles (response_document r) \<noteq> []) \<and>
    (\<forall>d \<in> set [rival]. bundles d \<noteq> [])"
    by (simp add: wst_def initial_write_state_def old_def rival_def new_def)
  have v: "existing_version (store_document (store wst)) = 5"
    by (simp add: wst_def initial_write_state_def existing_version_def)
  have l: "[0..<Suc (length [rival])] = [0, 1]" by (simp add: upt_rec)
  have w0: "attempts wst = 0" "retries wst = 3" "sleeps wst = []" "received (store wst) = []"
    by (simp_all add: wst_def initial_write_state_def)
  note run = index_external_versioning
    [where wst = wst and ds = "[rival]", THEN conjunct2, THEN mp, OF h]
  then obtain st' where all:
    "write_document store_client wst = Some (None, st') \<and>
         attempts st' = attempts wst + length [rival] + 1 \<and>
         retries st' = retries wst \<and> sleeps st' = sleeps wst \<and>
         pending (store st') = [] \<and>
         store_document (store st') =
           Some \<lparr>response_version =
                    Some (existing_version (store_document (store wst)) + int (length [rival]) + 1),
                 response_document = document_content st'\<rparr> \<and>
         map (\<lambda>r. (request_version r, request_version_type r)) (received (store st')) =
           map (\<lambda>r. (request_version r, request_version_type r)) (received (store wst)) @
           map (\<lambda>i. (existing_version (store_document (store wst)) + int i + 1, ''external''))
             [0..<Suc (length [rival])]"
    by (rule exE)
  from all have 1: "write_document store_client wst = Some (None, st')" by (rule conjunct1)
  from all have 2: "attempts st' = 2" unfolding w0 by simp
  from all have 3: "retries st' = 3" unfolding w0 by simp
  from all have 4: "sleeps st' = []" unfolding w0 by simp
  from all have 5: "map_option response_version (store_document (store st')) = Some (Some 7)"
    unfolding v by simp
  from all have 6: "map (\<lambda>r. (request_version r, request_version_type r)) (received (store st')) =
       [(6, ''external''), (7, ''external'')]"
    unfolding v l w0 by simp
  have "write_document store_client wst = Some (None, st') \<and>
     attempts st' = 2 \<and> retries st' = 3 \<and> sleeps st' = [] \<and>
     map (\<lambda>r. (request_version r, request_version_type r)) (received (store st')) =
       [(6, ''external''), (7, ''external'')] \<and>
     map_option response_version (store_document (store st')) = Some (Some 7)"
    using 1 2 3 4 5 6 by (intro conjI)
  then show ?thesis
    unfolding wst_def old_def rival_def new_def by (rule exI)
qed


lemma first_write_of_missing_document:
  "map_option (\<lambda>(e, st). (e, attempts st, retries st, store_document (store st),
                            received (store st)))
     (write_document store_client
        (initial_write_state \<lparr>store_document = None, pending = [], received = []\<rparr>
           \<lparr>bundles = [\<lparr>uuid = ''B1'', version = ''2020-01-01T00:00:00.000Z'', bundle_data = (100::nat)\<rparr>],
            other_keys = ''F''\<rparr>))
   = Some (None, 1, 3,
        Some \<lparr>response_version = Some 1,
              response_document =
                \<lparr>bundles = [\<lparr>uuid = ''B1'', version = ''2020-01-01T00:00:00.000Z'', bundle_data = 100\<rparr>],
                 other_keys = ''F''\<rparr>\<rparr>,
        [\<lparr>request_body =
            \<lparr>bundles = [\<lparr>uuid = ''B1'', version = ''2020-01-01T00:00:00.000Z'', bundle_data = 100\<rparr>],
             other_keys = ''F''\<rparr>,
          request_version = 1, request_version_type = ''external''\<rparr>])"
  by code_simp

end
